theory Spec2Isabelle
  imports Main "HOL-Library.Log_Nat" "HOL-Library.List_Lexorder" "HOL-Library.Char_ord"
begin

section \<open>Python values the agent computes with\<close>

text \<open>
  The exceptions that the modelled code can meet.  \<open>KeyboardInterrupt\<close> is the only
  one that is not a subclass of Python's \<open>Exception\<close>; all others are caught by an
  \<open>except Exception\<close> clause.
\<close>

datatype py_exception =
    ParseError | TypeError | ValueError | AttributeError | OverflowError | IndexError
  | RequestException | OperationalError | IntegrityError | KeyboardInterrupt

definition is_Exception :: "py_exception \<Rightarrow> bool" where
  "is_Exception e = (e \<noteq> KeyboardInterrupt)"

subsection \<open>Binary floating point\<close>

text \<open>
  A finite Python float is modelled by the rational number it denotes.  \<open>fl\<close> rounds a
  rational to the nearest number with a 53-bit significand, ties to even, which is what
  IEEE 754 binary64 division and multiplication return.  The exponent range is not
  bounded here; \<open>py_truediv\<close> adds the overflow check where the source divides integers
  of arbitrary size.
\<close>

definition rhe :: "rat \<Rightarrow> int" where
  "rhe q = (let f = \<lfloor>q\<rfloor>; r = q - of_int f in
     if r < 1 / 2 then f else if 1 / 2 < r then f + 1 else if even f then f else f + 1)"

definition ilog2 :: "rat \<Rightarrow> int" where
  "ilog2 x = (let (p, q) = quotient_of x; c = bitlen p - bitlen q in
     if 2 powi c \<le> x then c else c - 1)"

definition fl :: "rat \<Rightarrow> rat" where
  "fl x = (if x = 0 then 0
     else let u = 2 powi (ilog2 \<bar>x\<bar> - 52) in of_int (rhe (x / u)) * u)"

text \<open>\<open>int(x)\<close> of a float truncates towards zero.\<close>

definition py_trunc :: "rat \<Rightarrow> int" where
  "py_trunc x = (if 0 \<le> x then \<lfloor>x\<rfloor> else \<lceil>x\<rceil>)"

text \<open>\<open>n / m\<close> on Python integers: the correctly rounded quotient, or OverflowError.\<close>

definition py_truediv :: "int \<Rightarrow> int \<Rightarrow> py_exception + rat" where
  "py_truediv n m = (let r = fl (of_int n / of_int m) in
     if 2 ^ 1024 \<le> \<bar>r\<bar> then Inl OverflowError else Inr r)"

subsection \<open>\<open>int(text)\<close>\<close>

text \<open>
  \<open>int\<close> applied to the text of an element: \<open>None\<close> raises TypeError; a string is
  stripped of white space and read as an optional sign followed by decimal digits, single
  underscores allowed between digits; anything else raises ValueError.  Strings are ASCII
  here (decimal digits of other scripts are not modelled), and no limit on the number of
  digits is imposed.
\<close>

definition is_space :: "char \<Rightarrow> bool" where
  "is_space c = (c \<in> set [CHR '' '', CHR 0x09, CHR 0x0A, CHR 0x0B, CHR 0x0C, CHR 0x0D])"

definition strip :: "string \<Rightarrow> string" where
  "strip s = rev (dropWhile is_space (rev (dropWhile is_space s)))"

definition digit_of :: "char \<Rightarrow> int option" where
  "digit_of c = (let n = (of_char c :: int) in if 48 \<le> n \<and> n \<le> 57 then Some (n - 48) else None)"

fun parse_digits :: "int \<Rightarrow> string \<Rightarrow> int option" where
  "parse_digits acc [] = Some acc"
| "parse_digits acc [c] =
     (case digit_of c of None \<Rightarrow> None | Some v \<Rightarrow> Some (10 * acc + v))"
| "parse_digits acc (c # d # ds) =
     (if c = CHR ''_'' then
        (case digit_of d of None \<Rightarrow> None | Some v \<Rightarrow> parse_digits (10 * acc + v) ds)
      else (case digit_of c of None \<Rightarrow> None | Some v \<Rightarrow> parse_digits (10 * acc + v) (d # ds)))"

definition py_int_str :: "string \<Rightarrow> py_exception + int" where
  "py_int_str s =
     (let t = strip s;
          neg = (case t of [] \<Rightarrow> False | c # _ \<Rightarrow> c = CHR ''-'');
          u = (case t of [] \<Rightarrow> [] | c # r \<Rightarrow> if c = CHR ''-'' \<or> c = CHR ''+'' then r else t)
      in case u of
           [] \<Rightarrow> Inl ValueError
         | c # cs \<Rightarrow>
             (case digit_of c of
                None \<Rightarrow> Inl ValueError
              | Some v \<Rightarrow>
                  (case parse_digits v cs of
                     None \<Rightarrow> Inl ValueError
                   | Some n \<Rightarrow> Inr (if neg then - n else n))))"

definition py_int :: "string option \<Rightarrow> py_exception + int" where
  "py_int txt = (case txt of None \<Rightarrow> Inl TypeError | Some s \<Rightarrow> py_int_str s)"

text \<open>\<open>str.lower\<close> on ASCII text.\<close>

definition lower_char :: "char \<Rightarrow> char" where
  "lower_char c = (let n = (of_char c :: nat) in
     if 65 \<le> n \<and> n \<le> 90 then char_of (n + 32) else c)"

definition lower :: "string \<Rightarrow> string" where
  "lower s = map lower_char s"

subsection \<open>\<open>datetime\<close>\<close>

text \<open>
  A naive \<open>datetime\<close> is the number of microseconds between 1970-01-01 00:00:00 and its
  wall-clock reading; the difference of two of them is a \<open>timedelta\<close> in microseconds.
  \<open>datetime.fromtimestamp\<close> is modelled for a process whose time zone is UTC: the
  float is split into its integral and fractional part, the fraction is multiplied by
  \<open>1e6\<close> and rounded half to even, and a reading outside the supported years raises
  (ValueError on Linux).
\<close>

type_synonym datetime = int

definition fromtimestamp :: "rat \<Rightarrow> py_exception + datetime" where
  "fromtimestamp x =
     (let t = py_trunc x;
          us = rhe (fl ((x - of_int t) * 1000000));
          t' = (if 1000000 \<le> us then t + 1 else if us < 0 then t - 1 else t);
          us' = (if 1000000 \<le> us then us - 1000000 else if us < 0 then us + 1000000 else us)
      in if t' < - 62135510400 \<or> 253402300799 < t' then Inl ValueError
         else Inr (t' * 1000000 + us'))"

text \<open>
  The first and the last \<open>datetime\<close>: 0001-01-01 00:00:00 and
  9999-12-31 23:59:59.999999.
\<close>

definition datetime_min :: datetime where
  "datetime_min = - 62135596800000000"

definition datetime_max :: datetime where
  "datetime_max = 253402300799999999"

text \<open>
  \<open>timedelta(days=n)\<close> and \<open>timedelta(hours=n)\<close>, given the microseconds they
  stand for: the constructor raises OverflowError when the whole days of the difference
  have more than nine digits.
\<close>

definition timedelta :: "int \<Rightarrow> py_exception + int" where
  "timedelta us =
     (if - 999999999 \<le> us div 86400000000 \<and> us div 86400000000 \<le> 999999999 then Inr us
      else Inl OverflowError)"

text \<open>\<open>d - td\<close> raises OverflowError when the result is not a \<open>datetime\<close>.\<close>

definition datetime_sub :: "datetime \<Rightarrow> int \<Rightarrow> py_exception + datetime" where
  "datetime_sub d td =
     (if d - td < datetime_min \<or> datetime_max < d - td then Inl OverflowError
      else Inr (d - td))"

text \<open>\<open>timedelta.total_seconds()\<close>: the microseconds divided by \<open>10**6\<close>, as a float.\<close>

definition total_seconds :: "int \<Rightarrow> rat" where
  "total_seconds td = fl (of_int td / 1000000)"

section \<open>Response documents\<close>

text \<open>
  The element tree that \<open>ET.fromstring\<close> returns: every element has its expanded tag
  \<open>{namespace}local\<close>, its text (\<open>None\<close> for an empty element) and its children in
  document order.
\<close>

datatype element = Element (tag: string) (text_of: "string option") (children: "element list")

definition m_tag :: "string \<Rightarrow> string" where
  "m_tag local = ''{http://x-road.eu/xsd/monitoring}'' @ local"

text \<open>\<open>elem.iter()\<close>: the element and all its descendants, in document order.\<close>

fun iter :: "element \<Rightarrow> element list" where
  "iter (Element t x cs) = Element t x cs # concat (map iter cs)"

definition descendants :: "element \<Rightarrow> element list" where
  "descendants e = concat (map iter (children e))"

text \<open>\<open>elem.find('.//m:name', ns)\<close>: the first descendant with that tag, or \<open>None\<close>.\<close>

definition find_desc :: "element \<Rightarrow> string \<Rightarrow> element option" where
  "find_desc e name =
     (case filter (\<lambda>d. tag d = m_tag name) (descendants e) of [] \<Rightarrow> None | d # _ \<Rightarrow> Some d)"

text \<open>\<open>elem.findall('.//m:outer/m:inner', ns)\<close>: the \<open>inner\<close> children of every
  \<open>outer\<close> descendant.\<close>

definition findall_desc_child :: "element \<Rightarrow> string \<Rightarrow> string \<Rightarrow> element list" where
  "findall_desc_child e outer inner =
     concat (map (\<lambda>a. filter (\<lambda>c. tag c = m_tag inner) (children a))
                 (filter (\<lambda>d. tag d = m_tag outer) (descendants e)))"

section \<open>Operational records\<close>

record XRoadOperationalData =
  service_id :: "string option"
  client_id :: "string option"
  producer_id :: string
  request_timestamp :: "datetime option"
  response_timestamp :: "datetime option"
  request_size :: int
  response_size :: int
  success :: bool
  error_message :: "string option"
  request_duration :: "int option"

datatype log_entry = LogWarning py_exception | LogError py_exception

text \<open>An optional element converted by a function that may raise; absent gives the default.\<close>

definition opt_field :: "element option \<Rightarrow> 'a \<Rightarrow> (string option \<Rightarrow> py_exception + 'a)
    \<Rightarrow> py_exception + 'a" where
  "opt_field el dflt conv = (case el of None \<Rightarrow> Inr dflt | Some e \<Rightarrow> conv (text_of e))"

text \<open>\<open>datetime.fromtimestamp(int(text) / 1000)\<close>\<close>

definition timestamp_of_text :: "string option \<Rightarrow> py_exception + datetime option" where
  "timestamp_of_text txt =
     (case py_int txt of
        Inl e \<Rightarrow> Inl e
      | Inr n \<Rightarrow>
          (case py_truediv n 1000 of
             Inl e \<Rightarrow> Inl e
           | Inr x \<Rightarrow> (case fromtimestamp x of Inl e \<Rightarrow> Inl e | Inr d \<Rightarrow> Inr (Some d))))"

text \<open>\<open>text.lower() == 'true'\<close>\<close>

definition succeeded_of_text :: "string option \<Rightarrow> py_exception + bool" where
  "succeeded_of_text txt =
     (case txt of None \<Rightarrow> Inl AttributeError | Some s \<Rightarrow> Inr (lower s = ''true''))"

text \<open>
  Lines 230 to 233: the duration is computed when both timestamps are set (a
  \<open>datetime\<close> is always true in a condition), as
  \<open>int((response_ts - request_ts).total_seconds() * 1000)\<close>.
\<close>

definition duration_ms :: "datetime \<Rightarrow> datetime \<Rightarrow> int" where
  "duration_ms request_ts response_ts =
     py_trunc (fl (total_seconds (response_ts - request_ts) * 1000))"

definition duration_of :: "datetime option \<Rightarrow> datetime option \<Rightarrow> int option" where
  "duration_of request_ts response_ts =
     (case request_ts of
        None \<Rightarrow> None
      | Some a \<Rightarrow> (case response_ts of None \<Rightarrow> None | Some b \<Rightarrow> Some (duration_ms a b)))"

text \<open>
  The body of the inner \<open>try\<close> (lines 200 to 246) for one record element.  The
  conversions run in the order of the source; the first one that raises ends the record.
\<close>

definition parse_record :: "element \<Rightarrow> py_exception + XRoadOperationalData" where
  "parse_record record =
     (let service_elem = find_desc record ''serviceXRoadRequestId'';
          client_elem = find_desc record ''clientXRoadRequestId'';
          request_ts_elem = find_desc record ''requestInTs'';
          response_ts_elem = find_desc record ''responseOutTs'';
          request_size_elem = find_desc record ''requestSize'';
          response_size_elem = find_desc record ''responseSize'';
          succeeded_elem = find_desc record ''succeeded'';
          fault_elem = find_desc record ''faultString'';
          service = (case service_elem of None \<Rightarrow> Some ''Unknown'' | Some e \<Rightarrow> text_of e);
          client = (case client_elem of None \<Rightarrow> Some ''Unknown'' | Some e \<Rightarrow> text_of e)
      in case opt_field request_ts_elem None timestamp_of_text of
           Inl e \<Rightarrow> Inl e
         | Inr request_ts \<Rightarrow>
      (case opt_field response_ts_elem None timestamp_of_text of
           Inl e \<Rightarrow> Inl e
         | Inr response_ts \<Rightarrow>
      (case opt_field request_size_elem 0 py_int of
           Inl e \<Rightarrow> Inl e
         | Inr req_size \<Rightarrow>
      (case opt_field response_size_elem 0 py_int of
           Inl e \<Rightarrow> Inl e
         | Inr resp_size \<Rightarrow>
      (case opt_field succeeded_elem False succeeded_of_text of
           Inl e \<Rightarrow> Inl e
         | Inr succ \<Rightarrow>
             Inr \<lparr> service_id = service,
                   client_id = client,
                   producer_id = ''Unknown'',
                   request_timestamp = request_ts,
                   response_timestamp = response_ts,
                   request_size = req_size,
                   response_size = resp_size,
                   success = succ,
                   error_message = (case fault_elem of None \<Rightarrow> None | Some e \<Rightarrow> text_of e),
                   request_duration = duration_of request_ts response_ts \<rparr>)))))"

text \<open>
  The \<open>for\<close> loop over the record elements: a record that raises is logged with a
  warning and the loop continues with the next one.
\<close>

fun process_records :: "element list \<Rightarrow> XRoadOperationalData list \<Rightarrow> log_entry list
    \<Rightarrow> XRoadOperationalData list \<times> log_entry list" where
  "process_records [] operational_data lg = (operational_data, lg)"
| "process_records (r # rs) operational_data lg =
     (case parse_record r of
        Inr d \<Rightarrow> process_records rs (operational_data @ [d]) lg
      | Inl e \<Rightarrow> process_records rs operational_data (lg @ [LogWarning e]))"

text \<open>
  \<open>_parse_operational_data_response\<close>.  Its argument is the outcome of
  \<open>ET.fromstring(response_xml)\<close>: the root element, or the exception raised for a text
  that is not a well-formed document.  The result is the returned list together with the
  entries written to the log.
\<close>

definition parse_operational_data_response ::
    "py_exception + element \<Rightarrow> XRoadOperationalData list \<times> log_entry list" where
  "parse_operational_data_response response_xml =
     (case response_xml of
        Inl e \<Rightarrow> ([], [LogError e])
      | Inr root_elem \<Rightarrow>
          process_records
            (findall_desc_child root_elem ''operationalDataRecords'' ''operationalDataRecord'') [] [])"

section \<open>Request documents\<close>

text \<open>
  The part of the configuration that the request builders read.  \<open>xroad_instance\<close> is
  optional and defaults to \<open>DEV\<close>.
\<close>

record config =
  cfg_xroad_server :: string
  cfg_client_id :: string
  cfg_xroad_instance :: "string option"

definition xroad_instance :: "config \<Rightarrow> string" where
  "xroad_instance cfg = (case cfg_xroad_instance cfg of None \<Rightarrow> ''DEV'' | Some s \<Rightarrow> s)"

text \<open>\<open>s.split('/')\<close> and list indexing, which raises IndexError out of range.\<close>

fun split_slash :: "string \<Rightarrow> string list" where
  "split_slash [] = [[]]"
| "split_slash (c # cs) =
     (if c = CHR ''/'' then [] # split_slash cs
      else (case split_slash cs of [] \<Rightarrow> [[c]] | w # ws \<Rightarrow> (c # w) # ws))"

definition py_index :: "'a list \<Rightarrow> nat \<Rightarrow> py_exception + 'a" where
  "py_index xs i = (if i < length xs then Inr (xs ! i) else Inl IndexError)"

text \<open>
  The pair of expressions \<open>ident.split('/')[1]\<close> and \<open>ident.split('/')[2]\<close> that
  fill \<open>memberClass\<close> and \<open>memberCode\<close> (lines 117-118, 131-132 and 166-167),
  evaluated in this order.
\<close>

definition member_class_code :: "string \<Rightarrow> py_exception + string \<times> string" where
  "member_class_code ident =
     (case py_index (split_slash ident) 1 of
        Inl e \<Rightarrow> Inl e
      | Inr cls \<Rightarrow>
          (case py_index (split_slash ident) 2 of Inl e \<Rightarrow> Inl e | Inr code \<Rightarrow> Inr (cls, code)))"

text \<open>\<open>str(n)\<close> for an integer.\<close>

function str_nat :: "int \<Rightarrow> string" where
  "str_nat n = (if n < 10 then [char_of (48 + n)] else str_nat (n div 10) @ [char_of (48 + n mod 10)])"
  by pat_completeness auto
termination
  by (relation "measure nat") auto

definition py_str :: "int \<Rightarrow> string" where
  "py_str n = (if n < 0 then ''-'' @ str_nat (- n) else str_nat n)"

text \<open>
  \<open>datetime.timestamp()\<close> of a naive \<open>datetime\<close> (time zone UTC): the whole seconds
  plus the microseconds divided by \<open>1e6\<close>, as a float.  The conversion looks at the
  local time one day earlier, so it raises ValueError (year 0 is out of range) for a
  \<open>datetime\<close> before 0001-01-02 00:00:00.
\<close>

definition timestamp :: "datetime \<Rightarrow> py_exception + rat" where
  "timestamp d =
     (if d < - 62135510400000000 then Inl ValueError
      else Inr (fl (of_int (d div 1000000) + fl (of_int (d mod 1000000) / 1000000))))"

text \<open>
  \<open>strftime('%Y%m%d%H%M%S')\<close>: the calendar date of the day number, then the time of
  day; every field but the year is padded to two digits.
\<close>

definition civil_from_days :: "int \<Rightarrow> int \<times> int \<times> int" where
  "civil_from_days z0 =
     (let z = z0 + 719468;
          era = z div 146097;
          doe = z - era * 146097;
          yoe = (doe - doe div 1460 + doe div 36524 - doe div 146096) div 365;
          doy = doe - (365 * yoe + yoe div 4 - yoe div 100);
          mp = (5 * doy + 2) div 153;
          d = doy - (153 * mp + 2) div 5 + 1;
          m = (if mp < 10 then mp + 3 else mp - 9);
          y = yoe + era * 400 + (if m \<le> 2 then 1 else 0)
      in (y, m, d))"

definition pad2 :: "int \<Rightarrow> string" where
  "pad2 n = (if n < 10 then ''0'' @ py_str n else py_str n)"

definition strftime_YmdHMS :: "datetime \<Rightarrow> string" where
  "strftime_YmdHMS now =
     (let secs = now div 1000000;
          (y, m, d) = civil_from_days (secs div 86400);
          sod = secs mod 86400
      in py_str y @ pad2 m @ pad2 d @ pad2 (sod div 3600) @ pad2 (sod mod 3600 div 60)
         @ pad2 (sod mod 60))"

subsection \<open>The literal text of the templates\<close>

definition filter_part0 :: string where
  \<open>filter_part0 =
     ''\<newline>'' @
     ''            <m:client>\<newline>'' @
     ''                <id:xRoadInstance>''\<close>

definition filter_part1 :: string where
  \<open>filter_part1 =
     ''</id:xRoadInstance>\<newline>'' @
     ''                <id:memberClass>''\<close>

definition filter_part2 :: string where
  \<open>filter_part2 =
     ''</id:memberClass>\<newline>'' @
     ''                <id:memberCode>''\<close>

definition filter_part3 :: string where
  \<open>filter_part3 =
     ''</id:memberCode>\<newline>'' @
     ''            </m:client>\<newline>'' @
     ''            ''\<close>

definition operational_part0 :: string where
  \<open>operational_part0 =
     ''<?xml version="1.0" encoding="UTF-8"?>\<newline>'' @
     ''<SOAP-ENV:Envelope \<newline>'' @
     ''    xmlns:SOAP-ENV="http://schemas.xmlsoap.org/soap/envelope/" \<newline>'' @
     ''    xmlns:id="http://x-road.eu/xsd/identifiers" \<newline>'' @
     ''    xmlns:m="http://x-road.eu/xsd/monitoring" \<newline>'' @
     ''    xmlns:xrd="http://x-road.eu/xsd/xroad.xsd">\<newline>'' @
     ''    <SOAP-ENV:Header>\<newline>'' @
     ''        <xrd:client id:objectType="MEMBER">\<newline>'' @
     ''            <id:xRoadInstance>''\<close>

definition operational_part1 :: string where
  \<open>operational_part1 =
     ''</id:xRoadInstance>\<newline>'' @
     ''            <id:memberClass>''\<close>

definition operational_part2 :: string where
  \<open>operational_part2 =
     ''</id:memberClass>\<newline>'' @
     ''            <id:memberCode>''\<close>

definition operational_part3 :: string where
  \<open>operational_part3 =
     ''</id:memberCode>\<newline>'' @
     ''        </xrd:client>\<newline>'' @
     ''        <xrd:service id:objectType="SERVICE">\<newline>'' @
     ''            <id:xRoadInstance>''\<close>

definition operational_part4 :: string where
  \<open>operational_part4 =
     ''</id:xRoadInstance>\<newline>'' @
     ''            <id:memberClass>GOV</id:memberClass>\<newline>'' @
     ''            <id:memberCode>MONITORING</id:memberCode>\<newline>'' @
     ''            <id:serviceCode>getSecurityServerOperationalData</id:serviceCode>\<newline>'' @
     ''        </xrd:service>\<newline>'' @
     ''        <xrd:id>''\<close>

definition operational_part5 :: string where
  \<open>operational_part5 =
     ''</xrd:id>\<newline>'' @
     ''        <xrd:protocolVersion>4.0</xrd:protocolVersion>\<newline>'' @
     ''    </SOAP-ENV:Header>\<newline>'' @
     ''    <SOAP-ENV:Body>\<newline>'' @
     ''        <m:getSecurityServerOperationalData>\<newline>'' @
     ''            <m:searchCriteria>\<newline>'' @
     ''                <m:recordsFrom>''\<close>

definition operational_part6 :: string where
  \<open>operational_part6 =
     ''</m:recordsFrom>\<newline>'' @
     ''                <m:recordsTo>''\<close>

definition operational_part7 :: string where
  \<open>operational_part7 =
     ''</m:recordsTo>\<newline>'' @
     ''                ''\<close>

definition operational_part8 :: string where
  \<open>operational_part8 =
     ''\<newline>'' @
     ''            </m:searchCriteria>\<newline>'' @
     ''        </m:getSecurityServerOperationalData>\<newline>'' @
     ''    </SOAP-ENV:Body>\<newline>'' @
     ''</SOAP-ENV:Envelope>''\<close>

definition health_part0 :: string where
  \<open>health_part0 =
     ''<?xml version="1.0" encoding="UTF-8"?>\<newline>'' @
     ''<SOAP-ENV:Envelope \<newline>'' @
     ''    xmlns:SOAP-ENV="http://schemas.xmlsoap.org/soap/envelope/" \<newline>'' @
     ''    xmlns:id="http://x-road.eu/xsd/identifiers" \<newline>'' @
     ''    xmlns:m="http://x-road.eu/xsd/monitoring" \<newline>'' @
     ''    xmlns:xrd="http://x-road.eu/xsd/xroad.xsd">\<newline>'' @
     ''    <SOAP-ENV:Header>\<newline>'' @
     ''        <xrd:client id:objectType="MEMBER">\<newline>'' @
     ''            <id:xRoadInstance>''\<close>

definition health_part1 :: string where
  \<open>health_part1 =
     ''</id:xRoadInstance>\<newline>'' @
     ''            <id:memberClass>''\<close>

definition health_part2 :: string where
  \<open>health_part2 =
     ''</id:memberClass>\<newline>'' @
     ''            <id:memberCode>''\<close>

definition health_part3 :: string where
  \<open>health_part3 =
     ''</id:memberCode>\<newline>'' @
     ''        </xrd:client>\<newline>'' @
     ''        <xrd:service id:objectType="SERVICE">\<newline>'' @
     ''            <id:xRoadInstance>''\<close>

definition health_part4 :: string where
  \<open>health_part4 =
     ''</id:xRoadInstance>\<newline>'' @
     ''            <id:memberClass>GOV</id:memberClass>\<newline>'' @
     ''            <id:memberCode>MONITORING</id:memberCode>\<newline>'' @
     ''            <id:serviceCode>getSecurityServerHealthData</id:serviceCode>\<newline>'' @
     ''        </xrd:service>\<newline>'' @
     ''        <xrd:id>''\<close>

definition health_part5 :: string where
  \<open>health_part5 =
     ''</xrd:id>\<newline>'' @
     ''        <xrd:protocolVersion>4.0</xrd:protocolVersion>\<newline>'' @
     ''    </SOAP-ENV:Header>\<newline>'' @
     ''    <SOAP-ENV:Body>\<newline>'' @
     ''        <m:getSecurityServerHealthData/>\<newline>'' @
     ''    </SOAP-ENV:Body>\<newline>'' @
     ''</SOAP-ENV:Envelope>''\<close>


subsection \<open>The builders\<close>

text \<open>
  Lines 112 to 120: the filter clause, empty when no filter is given (\<open>None\<close> or the
  empty string).
\<close>

definition client_filter_xml :: "config \<Rightarrow> string option \<Rightarrow> py_exception + string" where
  "client_filter_xml cfg client_filter =
     (case client_filter of
        None \<Rightarrow> Inr []
      | Some cf \<Rightarrow>
          if cf = [] then Inr []
          else (case member_class_code cf of
                  Inl e \<Rightarrow> Inl e
                | Inr (cls, code) \<Rightarrow>
                    Inr (filter_part0 @ xroad_instance cfg @ filter_part1 @ cls @ filter_part2
                         @ code @ filter_part3)))"

text \<open>
  \<open>_build_operational_data_request\<close>.  \<open>now\<close> is the reading of the clock that
  \<open>datetime.now()\<close> returns while the document is formatted.  The two bounds of the
  period are converted first (lines 109 and 110), then the filter clause is formatted,
  then the document.
\<close>

definition build_operational_data_request ::
    "config \<Rightarrow> datetime \<Rightarrow> datetime \<Rightarrow> datetime \<Rightarrow> string option \<Rightarrow> py_exception + string" where
  "build_operational_data_request cfg now records_from records_to client_filter =
     (case timestamp records_from of
        Inl e \<Rightarrow> Inl e
      | Inr from_float \<Rightarrow>
     (case timestamp records_to of
        Inl e \<Rightarrow> Inl e
      | Inr to_float \<Rightarrow>
     (let from_ts = py_trunc from_float;
          to_ts = py_trunc to_float
      in case client_filter_xml cfg client_filter of
           Inl e \<Rightarrow> Inl e
         | Inr filter_xml \<Rightarrow>
             (case member_class_code (cfg_client_id cfg) of
                Inl e \<Rightarrow> Inl e
              | Inr (cls, code) \<Rightarrow>
                  Inr (operational_part0 @ xroad_instance cfg @ operational_part1 @ cls
                       @ operational_part2 @ code @ operational_part3 @ xroad_instance cfg
                       @ operational_part4 @ strftime_YmdHMS now @ operational_part5
                       @ py_str from_ts @ operational_part6 @ py_str to_ts @ operational_part7
                       @ filter_xml @ operational_part8)))))"

text \<open>\<open>_build_health_data_request\<close>; the \<open>server_id\<close> argument is not used.\<close>

definition build_health_data_request ::
    "config \<Rightarrow> datetime \<Rightarrow> string option \<Rightarrow> py_exception + string" where
  "build_health_data_request cfg now server_id =
     (case member_class_code (cfg_client_id cfg) of
        Inl e \<Rightarrow> Inl e
      | Inr (cls, code) \<Rightarrow>
          Inr (health_part0 @ xroad_instance cfg @ health_part1 @ cls @ health_part2 @ code
               @ health_part3 @ xroad_instance cfg @ health_part4 @ strftime_YmdHMS now
               @ health_part5))"


section \<open>Health documents\<close>

text \<open>
  A Python float that \<open>float(text)\<close> may return.  The conversion of a text to a float
  is an argument of the health parser: the functions below read it at the text of one
  element and never look into the number.
\<close>

datatype pyfloat = Finite rat | PosInf | NegInf | NaN

definition py_float :: "(string \<Rightarrow> py_exception + pyfloat) \<Rightarrow> string option
    \<Rightarrow> py_exception + pyfloat" where
  "py_float float_of_str txt = (case txt of None \<Rightarrow> Inl TypeError | Some s \<Rightarrow> float_of_str s)"

text \<open>
  The dictionaries that the health parser builds.  A field is \<open>None\<close> when the key
  was not set; \<open>serviceCode\<close> is set to the text of its element, which is itself
  \<open>None\<close> for an empty element.
\<close>

record service_stats =
  successfulRequestCount :: "int option"
  unsuccessfulRequestCount :: "int option"
  avgDuration :: "pyfloat option"

record service_data =
  serviceCode :: "string option option"
  lastSuccessfulRequestTimestamp :: "int option"
  lastUnsuccessfulRequestTimestamp :: "int option"
  lastPeriodStatistics :: "service_stats option"

record health_dict =
  monitoringStartupTimestamp :: "int option"
  statisticsPeriodSeconds :: "int option"
  services :: "service_data list option"

text \<open>A key that is set only when its element is present.\<close>

definition opt_key :: "element option \<Rightarrow> (string option \<Rightarrow> py_exception + 'a)
    \<Rightarrow> py_exception + 'a option" where
  "opt_key el conv =
     (case el of
        None \<Rightarrow> Inr None
      | Some e \<Rightarrow> (case conv (text_of e) of Inl x \<Rightarrow> Inl x | Inr v \<Rightarrow> Inr (Some v)))"

text \<open>Lines 297 to 309: the statistics of the last period.\<close>

definition parse_stats :: "(string \<Rightarrow> py_exception + pyfloat) \<Rightarrow> element
    \<Rightarrow> py_exception + service_stats" where
  "parse_stats float_of_str stats_elem =
     (case opt_key (find_desc stats_elem ''successfulRequestCount'') py_int of
        Inl e \<Rightarrow> Inl e
      | Inr success_count \<Rightarrow>
     (case opt_key (find_desc stats_elem ''unsuccessfulRequestCount'') py_int of
        Inl e \<Rightarrow> Inl e
      | Inr failure_count \<Rightarrow>
     (case opt_key (find_desc stats_elem ''requestMinDuration'') (py_float float_of_str) of
        Inl e \<Rightarrow> Inl e
      | Inr avg_duration \<Rightarrow>
          Inr \<lparr> successfulRequestCount = success_count,
                unsuccessfulRequestCount = failure_count,
                avgDuration = avg_duration \<rparr>)))"

text \<open>Lines 280 to 313: one \<open>serviceEvents\<close> element.\<close>

definition parse_service_event :: "(string \<Rightarrow> py_exception + pyfloat) \<Rightarrow> element
    \<Rightarrow> py_exception + service_data" where
  "parse_service_event float_of_str service_event =
     (let code = (case find_desc service_event ''serviceCode'' of
                    None \<Rightarrow> None | Some e \<Rightarrow> Some (text_of e))
      in case opt_key (find_desc service_event ''lastSuccessfulRequestTimestamp'') py_int of
           Inl e \<Rightarrow> Inl e
         | Inr last_success \<Rightarrow>
      (case opt_key (find_desc service_event ''lastUnsuccessfulRequestTimestamp'') py_int of
           Inl e \<Rightarrow> Inl e
         | Inr last_failure \<Rightarrow>
      (case (case find_desc service_event ''lastPeriodStatistics'' of
               None \<Rightarrow> Inr None
             | Some stats_elem \<Rightarrow>
                 (case parse_stats float_of_str stats_elem of
                    Inl e \<Rightarrow> Inl e | Inr stats \<Rightarrow> Inr (Some stats))) of
           Inl e \<Rightarrow> Inl e
         | Inr stats \<Rightarrow>
             Inr \<lparr> serviceCode = code,
                   lastSuccessfulRequestTimestamp = last_success,
                   lastUnsuccessfulRequestTimestamp = last_failure,
                   lastPeriodStatistics = stats \<rparr>)))"

text \<open>The loop of lines 279 to 313; the first exception leaves it.\<close>

fun parse_service_events :: "(string \<Rightarrow> py_exception + pyfloat) \<Rightarrow> element list
    \<Rightarrow> service_data list \<Rightarrow> py_exception + service_data list" where
  "parse_service_events float_of_str [] acc = Inr acc"
| "parse_service_events float_of_str (ev # evs) acc =
     (case parse_service_event float_of_str ev of
        Inl e \<Rightarrow> Inl e
      | Inr sd \<Rightarrow> parse_service_events float_of_str evs (acc @ [sd]))"

text \<open>
  \<open>_parse_health_data_response\<close>.  One \<open>try\<close> encloses the whole body: an exception
  is logged and the dictionary is returned with the keys set so far, so \<open>services\<close> is
  missing whenever anything raised.
\<close>

definition parse_health_data_response :: "(string \<Rightarrow> py_exception + pyfloat)
    \<Rightarrow> py_exception + element \<Rightarrow> health_dict \<times> log_entry list" where
  "parse_health_data_response float_of_str response_xml =
     (let empty = \<lparr> monitoringStartupTimestamp = None, statisticsPeriodSeconds = None,
                     services = None \<rparr>
      in case response_xml of
           Inl e \<Rightarrow> (empty, [LogError e])
         | Inr root_elem \<Rightarrow>
      (case opt_key (find_desc root_elem ''monitoringStartupTimestamp'') py_int of
           Inl e \<Rightarrow> (empty, [LogError e])
         | Inr startup \<Rightarrow>
      (case opt_key (find_desc root_elem ''statisticsPeriodSeconds'') py_int of
           Inl e \<Rightarrow> (empty\<lparr> monitoringStartupTimestamp := startup \<rparr>, [LogError e])
         | Inr period \<Rightarrow>
      (case parse_service_events float_of_str
              (findall_desc_child root_elem ''servicesEvents'' ''serviceEvents'') [] of
           Inl e \<Rightarrow>
             (empty\<lparr> monitoringStartupTimestamp := startup,
                      statisticsPeriodSeconds := period \<rparr>, [LogError e])
         | Inr svcs \<Rightarrow>
             (\<lparr> monitoringStartupTimestamp = startup, statisticsPeriodSeconds = period,
                 services = Some svcs \<rparr>, [])))))"

section \<open>The local database\<close>

text \<open>
  A table is the list of its rows in the order of insertion.  The columns \<open>id\<close> and
  \<open>created_at\<close> (\<open>timestamp\<close> for health data) are filled by the engine and are not
  part of a row here.  A row of \<open>operational_data\<close> holds the ten values of one
  \<open>XRoadOperationalData\<close>; the table has no constraint but \<open>NOT NULL\<close> on
  \<open>service_id\<close> and \<open>client_id\<close> (lines 362 to 377).
\<close>

record health_row =
  service_code :: string
  last_successful_request :: "datetime option"
  last_unsuccessful_request :: "datetime option"
  successful_count :: int
  unsuccessful_count :: int
  avg_duration :: "pyfloat option"

record database =
  operational_data :: "XRoadOperationalData list"
  health_data :: "health_row list"

text \<open>Binding a Python integer to a statement raises OverflowError beyond 64 bits.\<close>

definition sqlite_int :: "int \<Rightarrow> bool" where
  "sqlite_int n = (- (2 ^ 63) \<le> n \<and> n < 2 ^ 63)"

definition bindable :: "XRoadOperationalData \<Rightarrow> bool" where
  "bindable d = (sqlite_int (request_size d) \<and> sqlite_int (response_size d)
     \<and> (case request_duration d of None \<Rightarrow> True | Some n \<Rightarrow> sqlite_int n))"

text \<open>
  \<open>INSERT OR IGNORE\<close> of one record: a row that violates a constraint of the table is
  left out, every other row is appended.
\<close>

definition insert_or_ignore :: "XRoadOperationalData \<Rightarrow> XRoadOperationalData list
    \<Rightarrow> XRoadOperationalData list" where
  "insert_or_ignore d rows =
     (if service_id d = None \<or> client_id d = None then rows else rows @ [d])"

fun insert_all :: "XRoadOperationalData list \<Rightarrow> XRoadOperationalData list
    \<Rightarrow> py_exception + XRoadOperationalData list" where
  "insert_all [] rows = Inr rows"
| "insert_all (d # ds) rows =
     (if bindable d then insert_all ds (insert_or_ignore d rows) else Inl OverflowError)"

text \<open>
  \<open>_store_operational_data\<close>.  \<open>fault\<close> is an exception that the engine raises by
  itself (a locked or unwritable file), if any.  An exception leaves the function before
  \<open>commit\<close>, so the table is as it was.
\<close>

definition store_operational_data :: "py_exception option \<Rightarrow> database
    \<Rightarrow> XRoadOperationalData list \<Rightarrow> py_exception + database" where
  "store_operational_data fault db data =
     (case fault of
        Some e \<Rightarrow> Inl e
      | None \<Rightarrow>
          (case insert_all data (operational_data db) of
             Inl e \<Rightarrow> Inl e
           | Inr rows \<Rightarrow> Inr (db\<lparr> operational_data := rows \<rparr>)))"

text \<open>
  Lines 469 to 472: a timestamp of the health dictionary becomes a \<open>datetime\<close> when it
  is set and not zero.
\<close>

definition health_time :: "int option \<Rightarrow> py_exception + datetime option" where
  "health_time ts =
     (case ts of
        None \<Rightarrow> Inr None
      | Some n \<Rightarrow>
          if n = 0 then Inr None
          else (case py_truediv n 1000 of
                  Inl e \<Rightarrow> Inl e
                | Inr x \<Rightarrow> (case fromtimestamp x of Inl e \<Rightarrow> Inl e | Inr d \<Rightarrow> Inr (Some d))))"

text \<open>A \<open>REAL\<close> column stores a NaN as \<open>NULL\<close>.\<close>

definition sqlite_real :: "pyfloat \<Rightarrow> pyfloat option" where
  "sqlite_real x = (if x = NaN then None else Some x)"

text \<open>
  Lines 460 to 476: the row written for one service.  \<open>stats\<close> is the statistics
  dictionary, or the empty one when \<open>lastPeriodStatistics\<close> is missing.
\<close>

definition health_row_of :: "service_data \<Rightarrow> py_exception + health_row" where
  "health_row_of service =
     (let stats = (case lastPeriodStatistics service of
                     None \<Rightarrow> \<lparr> successfulRequestCount = None, unsuccessfulRequestCount = None,
                                avgDuration = None \<rparr>
                   | Some s \<Rightarrow> s);
          succ = (case successfulRequestCount stats of None \<Rightarrow> 0 | Some n \<Rightarrow> n);
          fails = (case unsuccessfulRequestCount stats of None \<Rightarrow> 0 | Some n \<Rightarrow> n);
          avg = (case avgDuration stats of None \<Rightarrow> Finite 0 | Some x \<Rightarrow> x)
      in case health_time (lastSuccessfulRequestTimestamp service) of
           Inl e \<Rightarrow> Inl e
         | Inr last_ok \<Rightarrow>
      (case health_time (lastUnsuccessfulRequestTimestamp service) of
           Inl e \<Rightarrow> Inl e
         | Inr last_bad \<Rightarrow>
             if \<not> sqlite_int succ \<or> \<not> sqlite_int fails then Inl OverflowError
             else (case serviceCode service of
                     Some (Some code) \<Rightarrow>
                       Inr \<lparr> service_code = code, last_successful_request = last_ok,
                             last_unsuccessful_request = last_bad, successful_count = succ,
                             unsuccessful_count = fails, avg_duration = sqlite_real avg \<rparr>
                   | _ \<Rightarrow> Inl IntegrityError)))"

fun insert_health :: "service_data list \<Rightarrow> health_row list \<Rightarrow> py_exception + health_row list" where
  "insert_health [] rows = Inr rows"
| "insert_health (s # ss) rows =
     (case health_row_of s of Inl e \<Rightarrow> Inl e | Inr r \<Rightarrow> insert_health ss (rows @ [r]))"

text \<open>\<open>_store_health_data\<close>\<close>

definition store_health_data :: "py_exception option \<Rightarrow> database \<Rightarrow> service_data list
    \<Rightarrow> py_exception + database" where
  "store_health_data fault db svcs =
     (case fault of
        Some e \<Rightarrow> Inl e
      | None \<Rightarrow>
          (case insert_health svcs (health_data db) of
             Inl e \<Rightarrow> Inl e
           | Inr rows \<Rightarrow> Inr (db\<lparr> health_data := rows \<rparr>)))"

section \<open>Analytics\<close>

text \<open>
  The aggregate functions of SQL over the values of a column that are not \<open>NULL\<close>:
  \<open>SUM\<close>, \<open>MIN\<close>, \<open>MAX\<close> and \<open>AVG\<close> of no value are \<open>NULL\<close>; \<open>AVG\<close> is the
  float quotient of the sum and the count.
\<close>

definition sql_sum :: "int list \<Rightarrow> int option" where
  "sql_sum xs = (if xs = [] then None else Some (sum_list xs))"

definition sql_avg :: "int list \<Rightarrow> rat option" where
  "sql_avg xs = (if xs = [] then None else Some (fl (of_int (sum_list xs) / of_int (int (length xs)))))"

definition sql_min :: "int list \<Rightarrow> int option" where
  "sql_min xs = (case xs of [] \<Rightarrow> None | y # ys \<Rightarrow> Some (fold min ys y))"

definition sql_max :: "int list \<Rightarrow> int option" where
  "sql_max xs = (case xs of [] \<Rightarrow> None | y # ys \<Rightarrow> Some (fold max ys y))"

definition non_null :: "'a option list \<Rightarrow> 'a list" where
  "non_null xs = concat (map (\<lambda>x. case x of None \<Rightarrow> [] | Some v \<Rightarrow> [v]) xs)"

record summary =
  total_requests :: int
  successful_requests :: "int option"
  failed_requests :: "int option"
  avg_duration_agg :: "rat option"
  min_duration :: "int option"
  max_duration :: "int option"
  avg_request_size :: "rat option"
  avg_response_size :: "rat option"

record service_summary =
  group_service_id :: string
  group_total_requests :: int
  group_successful_requests :: "int option"
  group_failed_requests :: "int option"
  group_avg_duration :: "rat option"

datatype analytics = OneService summary | AllServices "service_summary list"

text \<open>\<open>request_timestamp > ?\<close>: a \<open>NULL\<close> timestamp is never in the window.\<close>

definition in_window :: "datetime \<Rightarrow> XRoadOperationalData \<Rightarrow> bool" where
  "in_window since r = (case request_timestamp r of None \<Rightarrow> False | Some t \<Rightarrow> since < t)"

text \<open>The select list of lines 490 to 498 over the selected rows.\<close>

definition summarize :: "XRoadOperationalData list \<Rightarrow> summary" where
  "summarize rows =
     \<lparr> total_requests = int (length rows),
       successful_requests = sql_sum (map (\<lambda>r. if success r then 1 else 0) rows),
       failed_requests = sql_sum (map (\<lambda>r. if \<not> success r then 1 else 0) rows),
       avg_duration_agg = sql_avg (non_null (map request_duration rows)),
       min_duration = sql_min (non_null (map request_duration rows)),
       max_duration = sql_max (non_null (map request_duration rows)),
       avg_request_size = sql_avg (map request_size rows),
       avg_response_size = sql_avg (map response_size rows) \<rparr>"

definition summarize_group :: "string \<Rightarrow> XRoadOperationalData list \<Rightarrow> service_summary" where
  "summarize_group sid rows =
     \<lparr> group_service_id = sid,
       group_total_requests = int (length rows),
       group_successful_requests = sql_sum (map (\<lambda>r. if success r then 1 else 0) rows),
       group_failed_requests = sql_sum (map (\<lambda>r. if \<not> success r then 1 else 0) rows),
       group_avg_duration = sql_avg (non_null (map request_duration rows)) \<rparr>"

text \<open>
  The two queries of \<open>get_service_analytics\<close> over the rows of the table.  With a
  service the result is the one row of aggregates over its rows in the window.  Without
  one the rows of the window are grouped by service (the column is \<open>NOT NULL\<close>), one
  row of aggregates for each service that has a row in the window, and the groups are
  ordered by their number of rows, largest first.  SQLite forms the groups in the order
  of the service identifiers, compared byte by byte, and its sort keeps that order among
  groups of equal size.
\<close>

definition service_query :: "string \<Rightarrow> datetime \<Rightarrow> XRoadOperationalData list \<Rightarrow> summary" where
  "service_query s since table =
     summarize (filter (\<lambda>r. service_id r = Some s) (filter (in_window since) table))"

definition all_services_query :: "datetime \<Rightarrow> XRoadOperationalData list
    \<Rightarrow> service_summary list" where
  "all_services_query since table =
     (let window = filter (in_window since) table
      in sort_key (\<lambda>g. - group_total_requests g)
           (map (\<lambda>s. summarize_group s (filter (\<lambda>r. service_id r = Some s) window))
                (sort (remdups (non_null (map service_id window))))))"

text \<open>
  \<open>get_service_analytics\<close>.  \<open>now\<close> is the reading of the clock at line 486, where
  \<open>datetime.now() - timedelta(days=days)\<close> raises OverflowError for a number of days
  that is too large or that leads out of the years 1 to 9999.  A service that is
  \<open>None\<close> or the empty string selects the query over all services.
\<close>

definition get_service_analytics :: "database \<Rightarrow> datetime \<Rightarrow> string option \<Rightarrow> int
    \<Rightarrow> py_exception + analytics" where
  "get_service_analytics db now sid days =
     (case timedelta (days * 86400000000) of
        Inl e \<Rightarrow> Inl e
      | Inr td \<Rightarrow>
     (case datetime_sub now td of
        Inl e \<Rightarrow> Inl e
      | Inr since \<Rightarrow>
          (case (case sid of None \<Rightarrow> None | Some s \<Rightarrow> if s = [] then None else Some s) of
             Some s \<Rightarrow> Inr (OneService (service_query s since (operational_data db)))
           | None \<Rightarrow> Inr (AllServices (all_services_query since (operational_data db))))))"

section \<open>Collection cycles\<close>

text \<open>
  What \<open>requests.post\<close> does in one call: it raises, or it returns a response with a
  status code and a body, given here by the outcome of \<open>ET.fromstring\<close> on its text.
\<close>

datatype http_outcome = HttpRaises py_exception | HttpResponse int "py_exception + element"

text \<open>
  The surroundings of one iteration of the monitoring loop: the readings of the clock, the
  outcomes of the two requests, the faults of the database engine in the two stores, and
  whether a KeyboardInterrupt arrives during the pause.
\<close>

record iteration_env =
  clock_collect :: datetime
  clock_operational :: datetime
  clock_health :: datetime
  operational_response :: http_outcome
  health_response :: http_outcome
  operational_fault :: "py_exception option"
  health_fault :: "py_exception option"
  pause_interrupted :: bool

datatype event =
    CollectingOperational | CollectingHealth | Stored nat | NothingCollected
  | LoopError py_exception | Interrupted | Sleep int

text \<open>
  \<open>get_operational_data\<close>: the request is built outside the \<open>try\<close>; inside it every
  \<open>Exception\<close> and every status but 200 give the empty list.
\<close>

definition get_operational_data :: "config \<Rightarrow> datetime \<Rightarrow> http_outcome \<Rightarrow> datetime
    \<Rightarrow> datetime \<Rightarrow> string option \<Rightarrow> py_exception + XRoadOperationalData list" where
  "get_operational_data cfg now response records_from records_to client_filter =
     (case build_operational_data_request cfg now records_from records_to client_filter of
        Inl e \<Rightarrow> Inl e
      | Inr soap_request \<Rightarrow>
          (case response of
             HttpRaises e \<Rightarrow> if is_Exception e then Inr [] else Inl e
           | HttpResponse status body \<Rightarrow>
               if status = 200 then Inr (fst (parse_operational_data_response body))
               else Inr []))"

text \<open>\<open>get_health_data\<close>; \<open>None\<close> stands for the empty dictionary.\<close>

definition get_health_data :: "config \<Rightarrow> (string \<Rightarrow> py_exception + pyfloat) \<Rightarrow> datetime
    \<Rightarrow> http_outcome \<Rightarrow> py_exception + health_dict option" where
  "get_health_data cfg float_of_str now response =
     (case build_health_data_request cfg now None of
        Inl e \<Rightarrow> Inl e
      | Inr soap_request \<Rightarrow>
          (case response of
             HttpRaises e \<Rightarrow> if is_Exception e then Inr None else Inl e
           | HttpResponse status body \<Rightarrow>
               if status = 200 then Inr (Some (fst (parse_health_data_response float_of_str body)))
               else Inr None))"

text \<open>\<open>collect_operational_data\<close>: the records of the last \<open>hours_back\<close> hours are
  fetched and, when there are any, stored.  The clock is taken to read a time from which
  \<open>timedelta(hours=hours_back)\<close> can be subtracted.\<close>

definition collect_operational_data :: "config \<Rightarrow> iteration_env \<Rightarrow> database \<Rightarrow> int
    \<Rightarrow> (py_exception + database) \<times> event list" where
  "collect_operational_data cfg env db hours_back =
     (let end_time = clock_collect env;
          start_time = end_time - hours_back * 3600000000
      in case get_operational_data cfg (clock_operational env) (operational_response env)
                start_time end_time None of
           Inl e \<Rightarrow> (Inl e, [CollectingOperational])
         | Inr data \<Rightarrow>
             if data \<noteq> [] then
               (case store_operational_data (operational_fault env) db data of
                  Inl e \<Rightarrow> (Inl e, [CollectingOperational])
                | Inr db' \<Rightarrow> (Inr db', [CollectingOperational, Stored (length data)]))
             else (Inr db, [CollectingOperational, NothingCollected]))"

text \<open>\<open>collect_health_data\<close>: the services are stored when the dictionary has the
  key \<open>services\<close>.\<close>

definition collect_health_data :: "config \<Rightarrow> (string \<Rightarrow> py_exception + pyfloat)
    \<Rightarrow> iteration_env \<Rightarrow> database \<Rightarrow> (py_exception + database) \<times> event list" where
  "collect_health_data cfg float_of_str env db =
     (case get_health_data cfg float_of_str (clock_health env) (health_response env) of
        Inl e \<Rightarrow> (Inl e, [CollectingHealth])
      | Inr health \<Rightarrow>
          (case (case health of None \<Rightarrow> None | Some h \<Rightarrow> services h) of
             Some svcs \<Rightarrow>
               (case store_health_data (health_fault env) db svcs of
                  Inl e \<Rightarrow> (Inl e, [CollectingHealth])
                | Inr db' \<Rightarrow> (Inr db', [CollectingHealth, Stored (length svcs)]))
           | None \<Rightarrow> (Inr db, [CollectingHealth, NothingCollected])))"

text \<open>\<open>time.sleep(secs)\<close>: a negative argument raises ValueError at once; otherwise
  the pause ends, or a KeyboardInterrupt ends it.\<close>

definition sleep :: "int \<Rightarrow> bool \<Rightarrow> py_exception + unit" where
  "sleep secs interrupted =
     (if secs < 0 then Inl ValueError else if interrupted then Inl KeyboardInterrupt else Inr ())"

text \<open>The body of the \<open>try\<close> of lines 526 to 534.\<close>

definition cycle :: "config \<Rightarrow> (string \<Rightarrow> py_exception + pyfloat) \<Rightarrow> int \<Rightarrow> iteration_env
    \<Rightarrow> database \<Rightarrow> py_exception option \<times> database \<times> event list" where
  "cycle cfg float_of_str interval_minutes env db =
     (case collect_operational_data cfg env db 2 of
        (Inl e, evs) \<Rightarrow> (Some e, db, evs)
      | (Inr db1, evs1) \<Rightarrow>
          (case collect_health_data cfg float_of_str env db1 of
             (Inl e, evs2) \<Rightarrow> (Some e, db1, evs1 @ evs2)
           | (Inr db2, evs2) \<Rightarrow>
               (case sleep (interval_minutes * 60) (pause_interrupted env) of
                  Inl e \<Rightarrow> (Some e, db2, evs1 @ evs2)
                | Inr _ \<Rightarrow> (None, db2, evs1 @ evs2 @ [Sleep (interval_minutes * 60)]))))"

datatype loop_status = Running | Stopped | Propagated py_exception

text \<open>
  \<open>start_monitoring_loop\<close> over the surroundings of its first iterations.  The loop
  never ends by itself: \<open>Running\<close> says that it goes on to the next iteration,
  \<open>Stopped\<close> that it left by \<open>break\<close> after a KeyboardInterrupt, and
  \<open>Propagated\<close> that an exception left the function from inside a handler.
\<close>

fun start_monitoring_loop :: "config \<Rightarrow> (string \<Rightarrow> py_exception + pyfloat) \<Rightarrow> int
    \<Rightarrow> iteration_env list \<Rightarrow> database \<Rightarrow> event list
    \<Rightarrow> loop_status \<times> database \<times> event list" where
  "start_monitoring_loop cfg float_of_str interval_minutes [] db trace = (Running, db, trace)"
| "start_monitoring_loop cfg float_of_str interval_minutes (env # envs) db trace =
     (case cycle cfg float_of_str interval_minutes env db of
        (None, db', evs) \<Rightarrow>
          start_monitoring_loop cfg float_of_str interval_minutes envs db' (trace @ evs)
      | (Some e, db', evs) \<Rightarrow>
          if e = KeyboardInterrupt then (Stopped, db', trace @ evs @ [Interrupted])
          else (case sleep 60 (pause_interrupted env) of
                  Inl e' \<Rightarrow> (Propagated e', db', trace @ evs @ [LoopError e])
                | Inr _ \<Rightarrow>
                    start_monitoring_loop cfg float_of_str interval_minutes envs db'
                      (trace @ evs @ [LoopError e, Sleep 60])))"

text \<open>
  An iteration is cancelled from outside when a KeyboardInterrupt arrives at one of the
  places where it waits: a request, a store or the pause.
\<close>

definition interrupts :: "iteration_env \<Rightarrow> bool" where
  "interrupts env =
     (operational_response env = HttpRaises KeyboardInterrupt
      \<or> health_response env = HttpRaises KeyboardInterrupt
      \<or> operational_fault env = Some KeyboardInterrupt
      \<or> health_fault env = Some KeyboardInterrupt
      \<or> pause_interrupted env)"

text \<open>The pauses of a trace, and the number of cycles that it starts.\<close>

definition pauses :: "event list \<Rightarrow> int list" where
  "pauses tr = concat (map (\<lambda>ev. case ev of Sleep n \<Rightarrow> [n] | _ \<Rightarrow> []) tr)"

definition cycles_started :: "event list \<Rightarrow> nat" where
  "cycles_started tr = length (filter (\<lambda>ev. ev = CollectingOperational) tr)"

section \<open>Example documents\<close>

text \<open>
  A response whose record list holds the given record elements, and four record elements:
  one with every field, one with none, one whose request size is not a number, and one
  whose response precedes its request by half a second.
\<close>

definition leaf :: "string \<Rightarrow> string \<Rightarrow> element" where
  "leaf name txt = Element (m_tag name) (Some txt) []"

definition response_of :: "element list \<Rightarrow> element" where
  "response_of rs =
     Element ''{http://schemas.xmlsoap.org/soap/envelope/}Envelope'' None
       [Element (m_tag ''operationalDataRecords'') None rs]"

definition full_record :: element where
  "full_record = Element (m_tag ''operationalDataRecord'') None
     [leaf ''serviceXRoadRequestId'' ''svc-1'', leaf ''clientXRoadRequestId'' ''cli-1'',
      leaf ''requestInTs'' ''1700000000000'', leaf ''responseOutTs'' ''1700000000250'',
      leaf ''requestSize'' ''512'', leaf ''responseSize'' ''2048'', leaf ''succeeded'' ''true'']"

definition bare_record :: element where
  "bare_record = Element (m_tag ''operationalDataRecord'') None []"

definition broken_record :: element where
  "broken_record = Element (m_tag ''operationalDataRecord'') None
     [leaf ''serviceXRoadRequestId'' ''svc-2'', leaf ''requestSize'' ''abc'']"

definition backwards_record :: element where
  "backwards_record = Element (m_tag ''operationalDataRecord'') None
     [leaf ''requestInTs'' ''1000'', leaf ''responseOutTs'' ''500'']"

definition full_data :: XRoadOperationalData where
  "full_data =
     \<lparr> service_id = Some ''svc-1'', client_id = Some ''cli-1'', producer_id = ''Unknown'',
       request_timestamp = Some 1700000000000000, response_timestamp = Some 1700000000250000,
       request_size = 512, response_size = 2048, success = True, error_message = None,
       request_duration = Some 250 \<rparr>"

definition default_data :: XRoadOperationalData where
  "default_data =
     \<lparr> service_id = Some ''Unknown'', client_id = Some ''Unknown'', producer_id = ''Unknown'',
       request_timestamp = None, response_timestamp = None,
       request_size = 0, response_size = 0, success = False, error_message = None,
       request_duration = None \<rparr>"

definition backwards_data :: XRoadOperationalData where
  "backwards_data =
     \<lparr> service_id = Some ''Unknown'', client_id = Some ''Unknown'', producer_id = ''Unknown'',
       request_timestamp = Some 1000000, response_timestamp = Some 500000,
       request_size = 0, response_size = 0, success = False, error_message = None,
       request_duration = Some (- 500) \<rparr>"

text \<open>
  A record element that holds a service, the time of the response and the size of the
  request, and nothing else; and the record that it stands for.
\<close>

definition partial_record :: element where
  "partial_record = Element (m_tag ''operationalDataRecord'') None
     [leaf ''serviceXRoadRequestId'' ''svc-1'', leaf ''responseOutTs'' ''1700000000250'',
      leaf ''requestSize'' ''512'']"

definition partial_data :: XRoadOperationalData where
  "partial_data =
     \<lparr> service_id = Some ''svc-1'', client_id = Some ''Unknown'', producer_id = ''Unknown'',
       request_timestamp = None, response_timestamp = Some 1700000000250000,
       request_size = 512, response_size = 0, success = False, error_message = None,
       request_duration = None \<rparr>"

text \<open>
  An empty database, and three rows of one service: two successful requests that took
  100 ms and 300 ms, and a failed one without response.
\<close>

definition empty_db :: database where
  "empty_db = \<lparr> operational_data = [], health_data = [] \<rparr>"

definition row_ok_100 :: XRoadOperationalData where
  "row_ok_100 =
     \<lparr> service_id = Some ''svc-1'', client_id = Some ''cli-1'', producer_id = ''Unknown'',
       request_timestamp = Some 1700000000000000, response_timestamp = Some 1700000000100000,
       request_size = 512, response_size = 2048, success = True, error_message = None,
       request_duration = Some 100 \<rparr>"

definition row_ok_300 :: XRoadOperationalData where
  "row_ok_300 =
     \<lparr> service_id = Some ''svc-1'', client_id = Some ''cli-2'', producer_id = ''Unknown'',
       request_timestamp = Some 1700000001000000, response_timestamp = Some 1700000001300000,
       request_size = 256, response_size = 1024, success = True, error_message = None,
       request_duration = Some 300 \<rparr>"

definition row_failed :: XRoadOperationalData where
  "row_failed =
     \<lparr> service_id = Some ''svc-1'', client_id = Some ''cli-1'', producer_id = ''Unknown'',
       request_timestamp = Some 1700000002000000, response_timestamp = None,
       request_size = 128, response_size = 0, success = False,
       error_message = Some ''timeout'', request_duration = None \<rparr>"


text \<open>
  A table with the three rows above around a row of another service, the failed row
  without duration in the middle, and a row of 2020 that lies outside every window used
  below.
\<close>

definition row_other :: XRoadOperationalData where
  "row_other =
     \<lparr> service_id = Some ''svc-0'', client_id = Some ''cli-3'', producer_id = ''Unknown'',
       request_timestamp = Some 1700000003000000, response_timestamp = Some 1700000003050000,
       request_size = 64, response_size = 64, success = True, error_message = None,
       request_duration = Some 50 \<rparr>"

definition row_old :: XRoadOperationalData where
  "row_old =
     \<lparr> service_id = Some ''svc-1'', client_id = Some ''cli-1'', producer_id = ''Unknown'',
       request_timestamp = Some 1600000000000000, response_timestamp = Some 1600000000900000,
       request_size = 32, response_size = 32, success = True, error_message = None,
       request_duration = Some 900 \<rparr>"

definition mixed_db :: database where
  "mixed_db = \<lparr> operational_data = [row_ok_100, row_failed, row_other, row_ok_300, row_old],
                   health_data = [] \<rparr>"

text \<open>A configuration whose client identifier has the three segments that the builders
  index.\<close>

definition example_cfg :: config where
  "example_cfg = \<lparr> cfg_xroad_server = ''https://ss1.example/'',
                     cfg_client_id = ''DEV/GOV/12345'', cfg_xroad_instance = None \<rparr>"

text \<open>
  A \<open>serviceEvents\<close> element with statistics that carry a minimum and an average
  duration, one without statistics, and the values of \<open>float\<close> at the two texts of the
  first (every other text is taken not to be a number here).
\<close>

definition stats_block :: element where
  "stats_block = Element (m_tag ''lastPeriodStatistics'') None
     [leaf ''successfulRequestCount'' ''7'',
      leaf ''unsuccessfulRequestCount'' ''1'',
      leaf ''requestMinDuration'' ''12.5'',
      leaf ''requestAverageDuration'' ''40.0'']"

definition service_event_stats :: element where
  "service_event_stats = Element (m_tag ''serviceEvents'') None
     [leaf ''serviceCode'' ''getRandom'', stats_block]"

definition service_event_plain :: element where
  "service_event_plain = Element (m_tag ''serviceEvents'') None
     [leaf ''serviceCode'' ''getRandom'']"

definition example_float :: "string \<Rightarrow> py_exception + pyfloat" where
  "example_float s =
     (if s = ''12.5'' then Inr (Finite (25 / 2))
      else if s = ''40.0'' then Inr (Finite 40) else Inl ValueError)"

definition stats_service :: service_data where
  "stats_service =
     \<lparr> serviceCode = Some (Some ''getRandom''),
       lastSuccessfulRequestTimestamp = None,
       lastUnsuccessfulRequestTimestamp = None,
       lastPeriodStatistics =
         Some \<lparr> successfulRequestCount = Some 7, unsuccessfulRequestCount = Some 1,
                avgDuration = Some (Finite (25 / 2)) \<rparr> \<rparr>"

definition plain_service :: service_data where
  "plain_service =
     \<lparr> serviceCode = Some (Some ''getRandom''),
       lastSuccessfulRequestTimestamp = None,
       lastUnsuccessfulRequestTimestamp = None,
       lastPeriodStatistics = None \<rparr>"

definition stats_row :: health_row where
  "stats_row =
     \<lparr> service_code = ''getRandom'', last_successful_request = None,
       last_unsuccessful_request = None, successful_count = 7, unsuccessful_count = 1,
       avg_duration = Some (Finite (25 / 2)) \<rparr>"

definition plain_row :: health_row where
  "plain_row =
     \<lparr> service_code = ''getRandom'', last_successful_request = None,
       last_unsuccessful_request = None, successful_count = 0, unsuccessful_count = 0,
       avg_duration = Some (Finite 0) \<rparr>"

text \<open>
  A health response with the two service events, the dictionary that it parses to, and
  the database that holds the two rows of its services.
\<close>

definition health_document :: element where
  "health_document =
     Element ''{http://schemas.xmlsoap.org/soap/envelope/}Envelope'' None
       [Element (m_tag ''getSecurityServerHealthDataResponse'') None
          [leaf ''monitoringStartupTimestamp'' ''1700000000000'',
           leaf ''statisticsPeriodSeconds'' ''600'',
           Element (m_tag ''servicesEvents'') None
             [service_event_stats, service_event_plain]]]"

definition health_of_document :: health_dict where
  "health_of_document =
     \<lparr> monitoringStartupTimestamp = Some 1700000000000, statisticsPeriodSeconds = Some 600,
       services = Some [stats_service, plain_service] \<rparr>"

definition health_db :: database where
  "health_db = \<lparr> operational_data = [], health_data = [stats_row, plain_row] \<rparr>"

text \<open>
  The surroundings of three iterations: one in which both requests fail in transport, one
  in which both responses are not well-formed documents, and one in which the records of
  a good response cannot be stored.
\<close>

definition env_transport :: iteration_env where
  "env_transport =
     \<lparr> clock_collect = 1793813640000000, clock_operational = 1793813640000000,
       clock_health = 1793813641000000,
       operational_response = HttpRaises RequestException,
       health_response = HttpRaises RequestException,
       operational_fault = None, health_fault = None, pause_interrupted = False \<rparr>"

definition env_parse :: iteration_env where
  "env_parse =
     \<lparr> clock_collect = 1793814540000000, clock_operational = 1793814540000000,
       clock_health = 1793814541000000,
       operational_response = HttpResponse 200 (Inl ParseError),
       health_response = HttpResponse 200 (Inl ParseError),
       operational_fault = None, health_fault = None, pause_interrupted = False \<rparr>"

definition env_persistence :: iteration_env where
  "env_persistence =
     \<lparr> clock_collect = 1793815440000000, clock_operational = 1793815440000000,
       clock_health = 1793815441000000,
       operational_response = HttpResponse 200 (Inr (response_of [full_record, bare_record])),
       health_response = HttpRaises RequestException,
       operational_fault = Some OperationalError, health_fault = None,
       pause_interrupted = False \<rparr>"

section \<open>Properties of the floating-point model\<close>

lemma bitlen_bounds_rat:
  assumes "0 < (p::int)"
  shows "(2::rat) powi (bitlen p - 1) \<le> of_int p" and "of_int p < (2::rat) powi (bitlen p)"
proof -
  from assms have b1: "1 \<le> bitlen p" by (auto simp: bitlen_alt_def)
  from bitlen_bounds[OF assms] have lo: "2 ^ nat (bitlen p - 1) \<le> p" and hi: "p < 2 ^ nat (bitlen p)"
    by auto
  have "(of_int (2 ^ nat (bitlen p - 1)) :: rat) \<le> of_int p"
    using lo by (simp only: of_int_le_iff)
  then show "(2::rat) powi (bitlen p - 1) \<le> of_int p"
    using b1 by (simp add: power_int_nonneg_exp)
  have "(of_int p :: rat) < of_int (2 ^ nat (bitlen p))"
    using hi by (simp only: of_int_less_iff)
  then show "of_int p < (2::rat) powi (bitlen p)"
    using b1 by (simp add: power_int_nonneg_exp)
qed

lemma ilog2_bounds:
  assumes "0 < x"
  shows "2 powi (ilog2 x) \<le> x" and "x < 2 powi (ilog2 x + 1)"
proof -
  obtain p q where pq: "quotient_of x = (p, q)" by (cases "quotient_of x") auto
  then have q: "0 < q" by (rule quotient_of_denom_pos)
  from pq have x: "x = of_int p / of_int q"
    by (metis Fract_of_int_quotient Fract_quotient_of fst_conv snd_conv)
  with assms q have p: "0 < p"
    by (simp add: zero_less_divide_iff)
  define c where "c = bitlen p - bitlen q"
  note bp = bitlen_bounds_rat[OF p] and bq = bitlen_bounds_rat[OF q]
  have qpos: "(0::rat) < of_int q" using q by simp
  have up: "x < 2 powi (c + 1)"
  proof -
    have "of_int p < (2::rat) powi (bitlen p)" by (rule bp)
    also have "\<dots> = 2 powi (c + 1) * 2 powi (bitlen q - 1)"
      by (simp add: c_def power_int_add [symmetric])
    also have "\<dots> \<le> 2 powi (c + 1) * of_int q"
      using bq(1) by (intro mult_left_mono) auto
    finally show ?thesis using qpos by (simp add: x pos_divide_less_eq)
  qed
  have low: "2 powi (c - 1) < x"
  proof -
    have "2 powi (c - 1) * of_int q < 2 powi (c - 1) * (2::rat) powi (bitlen q)"
      using bq(2) by (intro mult_strict_left_mono) auto
    also have "\<dots> = 2 powi (bitlen p - 1)"
      by (simp add: c_def power_int_add [symmetric])
    also have "\<dots> \<le> of_int p" by (rule bp)
    finally show ?thesis using qpos by (simp add: x pos_less_divide_eq)
  qed
  have il: "ilog2 x = (if 2 powi c \<le> x then c else c - 1)"
    by (simp add: ilog2_def pq c_def)
  show "2 powi (ilog2 x) \<le> x" using low by (auto simp: il)
  show "x < 2 powi (ilog2 x + 1)" using up by (auto simp: il)
qed

lemma ilog2_unique:
  assumes "2 powi e \<le> x" "x < 2 powi (e + 1)"
  shows "ilog2 x = e"
proof -
  have pos: "0 < x" using assms(1) by (rule less_le_trans[rotated]) simp
  note b = ilog2_bounds[OF pos]
  have "(2::rat) powi e < 2 powi (ilog2 x + 1)" using assms(1) b(2) by linarith
  then have 1: "e < ilog2 x + 1"
    using power_int_increasing [of "ilog2 x + 1" e "2::rat"] by (cases "e < ilog2 x + 1") auto
  have "(2::rat) powi (ilog2 x) < 2 powi (e + 1)" using assms(2) b(1) by linarith
  then have 2: "ilog2 x < e + 1"
    using power_int_increasing [of "e + 1" "ilog2 x" "2::rat"] by (cases "ilog2 x < e + 1") auto
  from 1 2 show ?thesis by simp
qed

lemma rhe_near: "\<bar>of_int (rhe q) - q\<bar> \<le> 1 / 2"
  unfolding rhe_def Let_def by (auto simp: abs_if) linarith+

lemma rhe_of_int [simp]: "rhe (of_int n) = n"
  by (simp add: rhe_def)

lemma rhe_nearest:
  assumes "\<bar>q - of_int n\<bar> < 1 / 2"
  shows "rhe q = n"
proof -
  from rhe_near[of q] assms have "\<bar>(of_int (rhe q) :: rat) - of_int n\<bar> < 1" by linarith
  then have "\<bar>rhe q - n\<bar> < 1" by (metis of_int_abs of_int_diff of_int_less_1_iff)
  then show ?thesis by simp
qed

lemma fl_eval:
  assumes "2 powi e \<le> \<bar>x\<bar>" "\<bar>x\<bar> < 2 powi (e + 1)"
  shows "fl x = of_int (rhe (x / 2 powi (e - 52))) * 2 powi (e - 52)"
proof -
  have "x \<noteq> 0"
  proof
    assume "x = 0"
    with assms(1) have "(2::rat) powi e \<le> 0" by simp
    moreover have "(0::rat) < 2 powi e" by simp
    ultimately show False by linarith
  qed
  moreover have "ilog2 \<bar>x\<bar> = e" using assms by (rule ilog2_unique)
  ultimately show ?thesis by (simp add: fl_def Let_def)
qed

lemma fl_nearest:
  assumes "2 powi e \<le> \<bar>x\<bar>" "\<bar>x\<bar> < 2 powi (e + 1)"
    and "\<bar>x / 2 powi (e - 52) - of_int n\<bar> < 1 / 2"
  shows "fl x = of_int n * 2 powi (e - 52)"
  using fl_eval [OF assms(1,2)] rhe_nearest [OF assms(3)] by simp

lemma fl_error:
  "\<bar>fl x - x\<bar> \<le> \<bar>x\<bar> / 2 ^ 53"
proof (cases "x = 0")
  case True
  then show ?thesis by (simp add: fl_def)
next
  case False
  define e where "e = ilog2 \<bar>x\<bar>"
  define u :: rat where "u = 2 powi (e - 52)"
  have upos: "0 < u" by (simp add: u_def)
  from False have "0 < \<bar>x\<bar>" by simp
  then have lo: "2 powi e \<le> \<bar>x\<bar>" unfolding e_def by (rule ilog2_bounds)
  have flx: "fl x = of_int (rhe (x / u)) * u"
    using False by (simp add: fl_def e_def u_def Let_def)
  have "fl x - x = (of_int (rhe (x / u)) - x / u) * u"
    using upos by (simp add: flx field_simps)
  then have "\<bar>fl x - x\<bar> = \<bar>of_int (rhe (x / u)) - x / u\<bar> * u"
    using upos by (simp add: abs_mult)
  also have "\<dots> \<le> 1 / 2 * u"
    using rhe_near [of "x / u"] upos by (intro mult_right_mono) auto
  also have "\<dots> = 2 powi e / 2 ^ 53"
    by (simp add: u_def power_int_diff)
  also have "\<dots> \<le> \<bar>x\<bar> / 2 ^ 53"
    using lo by (simp add: divide_right_mono)
  finally show ?thesis .
qed

lemma fl_exact:
  assumes "x = of_int m * 2 powi k" "\<bar>m\<bar> < 2 ^ 53"
  shows "fl x = x"
proof (cases "x = 0")
  case True
  then show ?thesis by (simp add: fl_def)
next
  case False
  define e where "e = ilog2 \<bar>x\<bar>"
  from False have "0 < \<bar>x\<bar>" by simp
  then have lo: "2 powi e \<le> \<bar>x\<bar>" unfolding e_def by (rule ilog2_bounds)
  have "\<bar>x\<bar> = of_int \<bar>m\<bar> * 2 powi k"
    by (simp add: assms(1) abs_mult)
  also have "\<dots> < 2 ^ 53 * 2 powi k"
  proof -
    have "(of_int \<bar>m\<bar> :: rat) < of_int (2 ^ 53)"
      using assms(2) by (simp only: of_int_less_iff)
    then show ?thesis by (intro mult_strict_right_mono) auto
  qed
  also have "\<dots> = 2 powi (53 + k)"
    by (simp add: power_int_add)
  finally have "(2::rat) powi e < 2 powi (53 + k)" using lo by linarith
  then have "e < 53 + k"
    using power_int_increasing [of "53 + k" e "2::rat"] by (cases "e < 53 + k") auto
  then have j: "0 \<le> k - (e - 52)" by simp
  have "x / 2 powi (e - 52) = of_int m * 2 powi (k - (e - 52))"
    by (simp add: assms(1) power_int_diff)
  also have "\<dots> = of_int (m * 2 ^ nat (k - (e - 52)))"
    using j by (simp add: power_int_nonneg_exp)
  finally have "rhe (x / 2 powi (e - 52)) = m * 2 ^ nat (k - (e - 52))"
    by (simp only: rhe_of_int)
  then have "fl x = of_int (m * 2 ^ nat (k - (e - 52))) * 2 powi (e - 52)"
    using False by (simp add: fl_def e_def Let_def)
  also have "\<dots> = of_int m * (2 powi (k - (e - 52)) * 2 powi (e - 52))"
    using j by (simp add: power_int_nonneg_exp)
  also have "\<dots> = x"
    by (simp add: assms(1) power_int_add [symmetric])
  finally show ?thesis .
qed

lemma fl_of_int: "\<bar>m\<bar> < 2 ^ 53 \<Longrightarrow> fl (of_int m) = of_int m"
  using fl_exact [of "of_int m" m 0] by simp

lemma py_trunc_nonneg:
  "of_int n \<le> x \<Longrightarrow> x < of_int n + 1 \<Longrightarrow> 0 \<le> n \<Longrightarrow> py_trunc x = n"
  by (auto simp: py_trunc_def intro: floor_unique)

lemma py_trunc_nonpos:
  "of_int n - 1 < x \<Longrightarrow> x \<le> of_int n \<Longrightarrow> n \<le> 0 \<Longrightarrow> py_trunc x = n"
  by (cases "x = 0") (auto simp: py_trunc_def intro: ceiling_unique)

lemma py_trunc_of_int [simp]: "py_trunc (of_int n) = n"
  by (simp add: py_trunc_def)

lemma float_product_near:
  fixes k :: int
  shows "\<bar>fl (fl (of_int (1000 * k) / 1000000) * 1000) - of_int k\<bar>
           \<le> 3 * \<bar>of_int k\<bar> / 2 ^ 53"
proof -
  define x :: rat where "x = of_int (1000 * k) / 1000000"
  define s where "s = fl x"
  define p where "p = s * 1000"
  define K :: rat where "K = of_int k"
  have xk: "x * 1000 = K" by (simp add: x_def K_def)
  have 1: "\<bar>s - x\<bar> \<le> \<bar>x\<bar> / 2 ^ 53" unfolding s_def by (rule fl_error)
  have "p - K = (s - x) * 1000" using xk by (simp add: p_def algebra_simps)
  then have "\<bar>p - K\<bar> = \<bar>(s - x) * 1000\<bar>" by (simp only:)
  also have "\<dots> = \<bar>s - x\<bar> * 1000" by (subst abs_mult) simp
  also have "\<dots> \<le> \<bar>x\<bar> / 2 ^ 53 * 1000" using 1 by simp
  also have "\<dots> = \<bar>x * 1000\<bar> / 2 ^ 53" by (subst abs_mult) simp
  finally have 2: "\<bar>p - K\<bar> \<le> \<bar>K\<bar> / 2 ^ 53" by (simp only: xk)
  have "\<bar>K\<bar> / 2 ^ 53 \<le> \<bar>K\<bar>" by (simp add: field_simps)
  with 2 have 3: "\<bar>p\<bar> \<le> 2 * \<bar>K\<bar>" by linarith
  have "\<bar>fl p - p\<bar> \<le> \<bar>p\<bar> / 2 ^ 53" by (rule fl_error)
  also have "\<dots> \<le> 2 * \<bar>K\<bar> / 2 ^ 53" using 3 by (simp add: divide_right_mono)
  finally have 4: "\<bar>fl p - p\<bar> \<le> 2 * \<bar>K\<bar> / 2 ^ 53" .
  from 2 4 have "\<bar>fl p - K\<bar> \<le> 3 * \<bar>K\<bar> / 2 ^ 53" by linarith
  then show ?thesis by (simp add: p_def s_def x_def K_def)
qed

lemma py_trunc_near:
  fixes k :: int
  assumes near: "\<bar>f - of_int k\<bar> < 1" and sign: "\<bar>f - of_int k\<bar> \<le> \<bar>of_int k\<bar> / 2"
  shows "\<bar>py_trunc f - k\<bar> \<le> 1 \<and> \<bar>py_trunc f\<bar> \<le> \<bar>k\<bar>"
proof -
  consider "k = 0" | "0 < k" | "k < 0" by linarith
  then show ?thesis
  proof cases
    case 1
    with sign have "f = 0" by simp
    with 1 show ?thesis by (simp add: py_trunc_def)
  next
    case 2
    then have kr: "(0::rat) < of_int k" by simp
    with sign have pos: "0 < f" by linarith
    from near have lo: "of_int (k - 1) < f" and hi: "f < of_int (k + 1)"
      by (auto simp: abs_less_iff)
    from lo have "k - 1 \<le> \<lfloor>f\<rfloor>" by (simp add: le_floor_iff)
    moreover from hi have "\<lfloor>f\<rfloor> < k + 1" by (simp only: floor_less_iff)
    moreover have "py_trunc f = \<lfloor>f\<rfloor>" using pos by (simp add: py_trunc_def)
    ultimately show ?thesis using 2 by simp
  next
    case 3
    then have kr: "(of_int k :: rat) < 0" by simp
    with sign have neg: "f < 0" by linarith
    from near have lo: "of_int (k - 1) < f" and hi: "f < of_int (k + 1)"
      by (auto simp: abs_less_iff)
    from lo have "k - 1 < \<lceil>f\<rceil>" by (simp only: less_ceiling_iff)
    moreover from hi have "\<lceil>f\<rceil> \<le> k + 1" by (simp add: ceiling_le_iff)
    moreover have "py_trunc f = \<lceil>f\<rceil>" using neg by (simp add: py_trunc_def)
    ultimately show ?thesis using 3 by simp
  qed
qed

lemma duration_ms_whole:
  assumes "\<bar>k\<bar> < 2 ^ 51" "b - a = 1000 * k"
  shows "\<bar>duration_ms a b - k\<bar> \<le> 1 \<and> \<bar>duration_ms a b\<bar> \<le> \<bar>k\<bar>"
proof -
  define f where "f = fl (fl (of_int (1000 * k) / 1000000) * 1000)"
  have d: "duration_ms a b = py_trunc f"
    by (simp add: duration_ms_def total_seconds_def assms(2) f_def)
  have e: "\<bar>f - of_int k\<bar> \<le> 3 * \<bar>of_int k\<bar> / 2 ^ 53"
    unfolding f_def by (rule float_product_near)
  have kb: "\<bar>of_int k :: rat\<bar> < 2 ^ 51"
    using assms(1) by (metis of_int_abs of_int_less_numeral_power_cancel_iff)
  from e kb have "\<bar>f - of_int k\<bar> < 1" by simp
  moreover from e have "\<bar>f - of_int k\<bar> \<le> \<bar>of_int k\<bar> / 2" by simp
  ultimately show ?thesis unfolding d by (rule py_trunc_near)
qed

lemma duration_ms_250: "duration_ms a (a + 250000) = 250"
proof -
  have h1: "fl (1 / 4) = 1 / 4"
    using fl_exact [of "1 / 4" 1 "- 2"] by simp
  have h2: "fl 250 = 250"
    using fl_of_int [of 250] by simp
  show ?thesis
    by (simp add: duration_ms_def total_seconds_def h1 h2 py_trunc_def)
qed

lemma duration_ms_backwards: "duration_ms 1000000 500000 = - 500"
proof -
  have h1: "fl (- (1 / 2)) = - (1 / 2)"
    using fl_exact [of "- (1 / 2)" "- 1" "- 1"] by simp
  have h2: "fl (- 500) = - 500"
    using fl_of_int [of "- 500"] by simp
  show ?thesis
    by (simp add: duration_ms_def total_seconds_def h1 h2 py_trunc_def)
qed

lemma duration_ms_1001: "duration_ms 0 1001000 = 1000"
proof -
  have h1: "fl (1001 / 1000) = 2254051613498933 / 2251799813685248"
    using fl_nearest [of 0 "1001 / 1000" 4508103226997866] by simp
  have h2: "fl (281756451687366625 / 281474976710656) = 8804889115230207 / 8796093022208"
    using fl_nearest [of 9 "281756451687366625 / 281474976710656" 8804889115230207]
    by simp
  have h3: "py_trunc (8804889115230207 / 8796093022208) = 1000"
    by (rule py_trunc_nonneg) simp_all
  show ?thesis
    by (simp add: duration_ms_def total_seconds_def h1 h2 h3)
qed

section \<open>The response parser\<close>

lemma process_records_fst:
  "fst (process_records rs acc lg) =
     acc @ concat (map (\<lambda>r. case parse_record r of Inl e \<Rightarrow> [] | Inr d \<Rightarrow> [d]) rs)"
  by (induction rs arbitrary: acc lg) (auto split: sum.splits)

lemma process_records_snd:
  "snd (process_records rs acc lg) =
     lg @ concat (map (\<lambda>r. case parse_record r of Inl e \<Rightarrow> [LogWarning e] | Inr d \<Rightarrow> []) rs)"
  by (induction rs arbitrary: acc lg) (auto split: sum.splits)

lemma parsed_record_origin:
  assumes "d \<in> set (fst (parse_operational_data_response doc))"
  shows "\<exists>r. parse_record r = Inr d"
proof (cases doc)
  case (Inl e)
  with assms show ?thesis by (simp add: parse_operational_data_response_def)
next
  case (Inr root_elem)
  with assms show ?thesis
    by (auto simp: parse_operational_data_response_def process_records_fst split: sum.splits)
qed

subsection \<open>Evaluation of the example records\<close>

lemma m_tag_eq [simp]: "m_tag a = m_tag b \<longleftrightarrow> a = b"
  by (simp add: m_tag_def)

lemma tag_leaf [simp]: "tag (leaf name txt) = m_tag name"
  by (simp add: leaf_def)

lemma iter_leaf [simp]: "iter (leaf name txt) = [leaf name txt]"
  by (simp add: leaf_def)

lemma text_of_leaf [simp]: "text_of (leaf name txt) = Some txt"
  by (simp add: leaf_def)

lemma findall_response_two:
  "findall_desc_child (response_of [full_record, bare_record])
     ''operationalDataRecords'' ''operationalDataRecord'' = [full_record, bare_record]"
  by (simp add: findall_desc_child_def descendants_def response_of_def full_record_def
      bare_record_def broken_record_def backwards_record_def)

lemma findall_response_three:
  "findall_desc_child (response_of [full_record, broken_record, bare_record])
     ''operationalDataRecords'' ''operationalDataRecord''
   = [full_record, broken_record, bare_record]"
  by (simp add: findall_desc_child_def descendants_def response_of_def full_record_def
      bare_record_def broken_record_def backwards_record_def)

lemma findall_response_backwards:
  "findall_desc_child (response_of [backwards_record])
     ''operationalDataRecords'' ''operationalDataRecord'' = [backwards_record]"
  by (simp add: findall_desc_child_def descendants_def response_of_def full_record_def
      bare_record_def broken_record_def backwards_record_def)

lemma timestamp_of_text_exact:
  assumes "py_int txt = Inr n"
    and "of_int n / 1000 = (of_int m :: rat) * 2 powi k" "\<bar>m\<bar> < 2 ^ 53"
    and "\<bar>of_int n / 1000 :: rat\<bar> < 2 ^ 1024"
    and "of_int t \<le> (of_int n / 1000 :: rat)" "(of_int n / 1000 :: rat) < of_int t + 1" "0 \<le> t"
    and "(of_int n / 1000 - of_int t) * 1000000 = (of_int us :: rat)"
    and "0 \<le> us" "us < 1000000" "t \<le> 253402300799"
  shows "timestamp_of_text txt = Inr (Some (t * 1000000 + us))"
proof -
  define x :: rat where "x = of_int n / 1000"
  have flx: "fl x = x" unfolding x_def using assms(2,3) by (rule fl_exact)
  have div: "py_truediv n 1000 = Inr x"
    using assms(4) flx by (simp add: py_truediv_def x_def Let_def)
  have tr: "py_trunc x = t" unfolding x_def using assms(5,6,7) by (rule py_trunc_nonneg)
  have "\<bar>us\<bar> < 2 ^ 53" using assms(9,10) by simp
  then have "fl (of_int us) = of_int us" by (rule fl_of_int)
  then have us: "rhe (fl ((x - of_int t) * 1000000)) = us"
    using assms(8) by (simp add: x_def)
  have "fromtimestamp x = Inr (t * 1000000 + us)"
    unfolding fromtimestamp_def Let_def tr us using assms(7,9,10,11) by simp
  then show ?thesis
    by (simp add: timestamp_of_text_def assms(1) div x_def)
qed

lemma py_int_examples:
  "py_int (Some ''512'') = Inr 512" "py_int (Some ''2048'') = Inr 2048"
  "py_int (Some ''1700000000000'') = Inr 1700000000000"
  "py_int (Some ''1700000000250'') = Inr 1700000000250"
  "py_int (Some ''1000'') = Inr 1000" "py_int (Some ''500'') = Inr 500"
  "py_int (Some ''abc'') = Inl ValueError"
  by code_simp+

lemma timestamp_of_text_examples:
  "timestamp_of_text (Some ''1700000000000'') = Inr (Some 1700000000000000)"
  "timestamp_of_text (Some ''1700000000250'') = Inr (Some 1700000000250000)"
  "timestamp_of_text (Some ''1000'') = Inr (Some 1000000)"
  "timestamp_of_text (Some ''500'') = Inr (Some 500000)"
proof -
  show "timestamp_of_text (Some ''1700000000000'') = Inr (Some 1700000000000000)"
    using timestamp_of_text_exact [of "Some ''1700000000000''" 1700000000000 1700000000 0
        1700000000 0]
    by (simp add: py_int_examples)
  show "timestamp_of_text (Some ''1700000000250'') = Inr (Some 1700000000250000)"
    using timestamp_of_text_exact [of "Some ''1700000000250''" 1700000000250 6800000001 "- 2"
        1700000000 250000]
    by (simp add: py_int_examples)
  show "timestamp_of_text (Some ''1000'') = Inr (Some 1000000)"
    using timestamp_of_text_exact [of "Some ''1000''" 1000 1 0 1 0]
    by (simp add: py_int_examples)
  show "timestamp_of_text (Some ''500'') = Inr (Some 500000)"
    using timestamp_of_text_exact [of "Some ''500''" 500 1 "- 1" 0 500000]
    by (simp add: py_int_examples)
qed

lemma find_desc_bare_record: "find_desc bare_record name = None"
  by (simp add: find_desc_def descendants_def bare_record_def)

lemma parse_bare_record: "parse_record bare_record = Inr default_data"
  by (simp add: parse_record_def find_desc_bare_record opt_field_def duration_of_def
      default_data_def)

lemma parse_broken_record: "parse_record broken_record = Inl ValueError"
  by (simp add: parse_record_def find_desc_def descendants_def broken_record_def
      opt_field_def py_int_examples)

lemma find_desc_full_record:
  "find_desc full_record ''serviceXRoadRequestId'' = Some (leaf ''serviceXRoadRequestId'' ''svc-1'')"
  "find_desc full_record ''clientXRoadRequestId'' = Some (leaf ''clientXRoadRequestId'' ''cli-1'')"
  "find_desc full_record ''requestInTs'' = Some (leaf ''requestInTs'' ''1700000000000'')"
  "find_desc full_record ''responseOutTs'' = Some (leaf ''responseOutTs'' ''1700000000250'')"
  "find_desc full_record ''requestSize'' = Some (leaf ''requestSize'' ''512'')"
  "find_desc full_record ''responseSize'' = Some (leaf ''responseSize'' ''2048'')"
  "find_desc full_record ''succeeded'' = Some (leaf ''succeeded'' ''true'')"
  "find_desc full_record ''faultString'' = None"
  by (simp_all add: find_desc_def descendants_def full_record_def)

lemma find_desc_backwards_record:
  "find_desc backwards_record ''serviceXRoadRequestId'' = None"
  "find_desc backwards_record ''clientXRoadRequestId'' = None"
  "find_desc backwards_record ''requestInTs'' = Some (leaf ''requestInTs'' ''1000'')"
  "find_desc backwards_record ''responseOutTs'' = Some (leaf ''responseOutTs'' ''500'')"
  "find_desc backwards_record ''requestSize'' = None"
  "find_desc backwards_record ''responseSize'' = None"
  "find_desc backwards_record ''succeeded'' = None"
  "find_desc backwards_record ''faultString'' = None"
  by (simp_all add: find_desc_def descendants_def backwards_record_def)

lemma lower_true: "lower ''true'' = ''true''"
  by (simp add: lower_def lower_char_def)

lemma parse_full_record: "parse_record full_record = Inr full_data"
  unfolding parse_record_def
  by (simp add: find_desc_full_record opt_field_def timestamp_of_text_examples
      py_int_examples succeeded_of_text_def lower_true duration_of_def full_data_def
      duration_ms_250 [of 1700000000000000, simplified])

lemma parse_backwards_record: "parse_record backwards_record = Inr backwards_data"
  unfolding parse_record_def
  by (simp add: find_desc_backwards_record opt_field_def timestamp_of_text_examples
      duration_of_def backwards_data_def duration_ms_backwards)

lemma parse_response_two:
  "parse_operational_data_response (Inr (response_of [full_record, bare_record]))
   = ([full_data, default_data], [])"
  by (simp add: parse_operational_data_response_def findall_response_two
      parse_full_record parse_bare_record)

lemma parse_response_three:
  "parse_operational_data_response (Inr (response_of [full_record, broken_record, bare_record]))
   = ([full_data, default_data], [LogWarning ValueError])"
  by (simp add: parse_operational_data_response_def findall_response_three
      parse_full_record parse_bare_record parse_broken_record)

lemma parse_response_backwards:
  "parse_operational_data_response (Inr (response_of [backwards_record]))
   = ([backwards_data], [])"
  by (simp add: parse_operational_data_response_def findall_response_backwards
      parse_backwards_record)

lemma find_desc_partial_record:
  "find_desc partial_record ''serviceXRoadRequestId'' = Some (leaf ''serviceXRoadRequestId'' ''svc-1'')"
  "find_desc partial_record ''clientXRoadRequestId'' = None"
  "find_desc partial_record ''requestInTs'' = None"
  "find_desc partial_record ''responseOutTs'' = Some (leaf ''responseOutTs'' ''1700000000250'')"
  "find_desc partial_record ''requestSize'' = Some (leaf ''requestSize'' ''512'')"
  "find_desc partial_record ''responseSize'' = None"
  "find_desc partial_record ''succeeded'' = None"
  "find_desc partial_record ''faultString'' = None"
  by (simp_all add: find_desc_def descendants_def partial_record_def)

lemma find_desc_broken_record:
  "find_desc broken_record ''requestSize'' = Some (leaf ''requestSize'' ''abc'')"
  by (simp add: find_desc_def descendants_def broken_record_def)

lemma parse_partial_record: "parse_record partial_record = Inr partial_data"
  unfolding parse_record_def
  by (simp add: find_desc_partial_record opt_field_def timestamp_of_text_examples
      py_int_examples duration_of_def partial_data_def)

lemma findall_response_partial:
  "findall_desc_child (response_of [full_record, partial_record])
     ''operationalDataRecords'' ''operationalDataRecord'' = [full_record, partial_record]"
  by (simp add: findall_desc_child_def descendants_def response_of_def full_record_def
      partial_record_def)

lemma parse_response_partial:
  "parse_operational_data_response (Inr (response_of [full_record, partial_record]))
   = ([full_data, partial_data], [])"
  by (simp add: parse_operational_data_response_def findall_response_partial
      parse_full_record parse_partial_record)

lemma parse_record_defaults:
  "parse_record r = Inr d \<longrightarrow>
     (find_desc r ''serviceXRoadRequestId'' = None \<longrightarrow> service_id d = Some ''Unknown'') \<and>
     (find_desc r ''clientXRoadRequestId'' = None \<longrightarrow> client_id d = Some ''Unknown'') \<and>
     (find_desc r ''requestInTs'' = None \<longrightarrow> request_timestamp d = None) \<and>
     (find_desc r ''responseOutTs'' = None \<longrightarrow> response_timestamp d = None) \<and>
     (find_desc r ''requestSize'' = None \<longrightarrow> request_size d = 0) \<and>
     (find_desc r ''responseSize'' = None \<longrightarrow> response_size d = 0) \<and>
     (find_desc r ''succeeded'' = None \<longrightarrow> \<not> success d)"
  by (auto simp: parse_record_def Let_def opt_field_def split: sum.splits)

lemma parse_record_values:
  "parse_record r = Inr d \<longrightarrow>
     (\<forall>el. find_desc r ''serviceXRoadRequestId'' = Some el \<longrightarrow> service_id d = text_of el) \<and>
     (\<forall>el. find_desc r ''clientXRoadRequestId'' = Some el \<longrightarrow> client_id d = text_of el) \<and>
     (\<forall>el. find_desc r ''requestInTs'' = Some el \<longrightarrow>
        timestamp_of_text (text_of el) = Inr (request_timestamp d)) \<and>
     (\<forall>el. find_desc r ''responseOutTs'' = Some el \<longrightarrow>
        timestamp_of_text (text_of el) = Inr (response_timestamp d)) \<and>
     (\<forall>el. find_desc r ''requestSize'' = Some el \<longrightarrow>
        py_int (text_of el) = Inr (request_size d)) \<and>
     (\<forall>el. find_desc r ''responseSize'' = Some el \<longrightarrow>
        py_int (text_of el) = Inr (response_size d)) \<and>
     (\<forall>el. find_desc r ''succeeded'' = Some el \<longrightarrow>
        succeeded_of_text (text_of el) = Inr (success d))"
  by (auto simp: parse_record_def Let_def opt_field_def split: sum.splits)

lemma parse_record_fails:
  "parse_record q = Inl e \<longrightarrow>
     (\<exists>el. find_desc q ''requestInTs'' = Some el \<and> timestamp_of_text (text_of el) = Inl e)
     \<or> (\<exists>el. find_desc q ''responseOutTs'' = Some el
           \<and> timestamp_of_text (text_of el) = Inl e)
     \<or> (\<exists>el. find_desc q ''requestSize'' = Some el \<and> py_int (text_of el) = Inl e)
     \<or> (\<exists>el. find_desc q ''responseSize'' = Some el \<and> py_int (text_of el) = Inl e)
     \<or> (\<exists>el. find_desc q ''succeeded'' = Some el \<and> succeeded_of_text (text_of el) = Inl e)"
  by (auto simp: parse_record_def Let_def opt_field_def split: sum.splits option.splits)

lemma parse_record_returns:
  "(find_desc r ''requestInTs'' = None
      \<or> (\<exists>el v. find_desc r ''requestInTs'' = Some el
            \<and> timestamp_of_text (text_of el) = Inr v))
   \<and> (find_desc r ''responseOutTs'' = None
      \<or> (\<exists>el v. find_desc r ''responseOutTs'' = Some el
            \<and> timestamp_of_text (text_of el) = Inr v))
   \<and> (find_desc r ''requestSize'' = None
      \<or> (\<exists>el v. find_desc r ''requestSize'' = Some el \<and> py_int (text_of el) = Inr v))
   \<and> (find_desc r ''responseSize'' = None
      \<or> (\<exists>el v. find_desc r ''responseSize'' = Some el \<and> py_int (text_of el) = Inr v))
   \<and> (find_desc r ''succeeded'' = None
      \<or> (\<exists>el v. find_desc r ''succeeded'' = Some el
            \<and> succeeded_of_text (text_of el) = Inr v))
   \<longrightarrow> (\<exists>d'. parse_record r = Inr d')"
proof (cases "parse_record r")
  case (Inl x)
  with parse_record_fails [of r x] show ?thesis by auto
next
  case (Inr d')
  then show ?thesis by simp
qed

subsection \<open>Claims about the operational parser\<close>

text \<open>
  C4.  A record element that raises is skipped and logged with a warning, and the other
  record elements of the document still give their records: the returned list holds one
  record for every record element that parses, in document order.  Within a record, each
  missing field is replaced by its own default: \<open>Unknown\<close> for the two identifiers, no
  timestamp, size 0, success false; and each field that is present is the conversion of
  the text of its own element, whatever the other fields are.  A missing element never
  makes a record fail: a record parses whenever each of its five converted elements is
  missing or converts, and a record that raises has an element whose conversion raises
  that exception.  A document with a complete record and a record without any field
  gives exactly two records, the complete one and the defaulted one; so does a document
  with a complete record and a record with three fields out of seven; with a malformed
  record between the two the result is the same two records and one warning.
\<close>

theorem parse_operational_tolerant:
  "parse_operational_data_response (Inr root_elem) =
     (concat (map (\<lambda>r. case parse_record r of Inl e \<Rightarrow> [] | Inr d \<Rightarrow> [d])
        (findall_desc_child root_elem ''operationalDataRecords'' ''operationalDataRecord'')),
      concat (map (\<lambda>r. case parse_record r of Inl e \<Rightarrow> [LogWarning e] | Inr d \<Rightarrow> [])
        (findall_desc_child root_elem ''operationalDataRecords'' ''operationalDataRecord'')))
   \<and> (parse_record r = Inr d \<longrightarrow>
        (find_desc r ''serviceXRoadRequestId'' = None \<longrightarrow> service_id d = Some ''Unknown'') \<and>
        (find_desc r ''clientXRoadRequestId'' = None \<longrightarrow> client_id d = Some ''Unknown'') \<and>
        (find_desc r ''requestInTs'' = None \<longrightarrow> request_timestamp d = None) \<and>
        (find_desc r ''responseOutTs'' = None \<longrightarrow> response_timestamp d = None) \<and>
        (find_desc r ''requestSize'' = None \<longrightarrow> request_size d = 0) \<and>
        (find_desc r ''responseSize'' = None \<longrightarrow> response_size d = 0) \<and>
        (find_desc r ''succeeded'' = None \<longrightarrow> \<not> success d))
   \<and> parse_operational_data_response (Inr (response_of [full_record, bare_record]))
       = ([full_data, default_data], [])
   \<and> parse_operational_data_response
         (Inr (response_of [full_record, broken_record, bare_record]))
       = ([full_data, default_data], [LogWarning ValueError])
   \<and> (parse_record r = Inr d \<longrightarrow>
        (\<forall>el. find_desc r ''serviceXRoadRequestId'' = Some el \<longrightarrow> service_id d = text_of el) \<and>
        (\<forall>el. find_desc r ''clientXRoadRequestId'' = Some el \<longrightarrow> client_id d = text_of el) \<and>
        (\<forall>el. find_desc r ''requestInTs'' = Some el \<longrightarrow>
           timestamp_of_text (text_of el) = Inr (request_timestamp d)) \<and>
        (\<forall>el. find_desc r ''responseOutTs'' = Some el \<longrightarrow>
           timestamp_of_text (text_of el) = Inr (response_timestamp d)) \<and>
        (\<forall>el. find_desc r ''requestSize'' = Some el \<longrightarrow>
           py_int (text_of el) = Inr (request_size d)) \<and>
        (\<forall>el. find_desc r ''responseSize'' = Some el \<longrightarrow>
           py_int (text_of el) = Inr (response_size d)) \<and>
        (\<forall>el. find_desc r ''succeeded'' = Some el \<longrightarrow>
           succeeded_of_text (text_of el) = Inr (success d)))
   \<and> ((find_desc r ''requestInTs'' = None
         \<or> (\<exists>el v. find_desc r ''requestInTs'' = Some el
               \<and> timestamp_of_text (text_of el) = Inr v))
      \<and> (find_desc r ''responseOutTs'' = None
         \<or> (\<exists>el v. find_desc r ''responseOutTs'' = Some el
               \<and> timestamp_of_text (text_of el) = Inr v))
      \<and> (find_desc r ''requestSize'' = None
         \<or> (\<exists>el v. find_desc r ''requestSize'' = Some el \<and> py_int (text_of el) = Inr v))
      \<and> (find_desc r ''responseSize'' = None
         \<or> (\<exists>el v. find_desc r ''responseSize'' = Some el \<and> py_int (text_of el) = Inr v))
      \<and> (find_desc r ''succeeded'' = None
         \<or> (\<exists>el v. find_desc r ''succeeded'' = Some el
               \<and> succeeded_of_text (text_of el) = Inr v))
      \<longrightarrow> (\<exists>d'. parse_record r = Inr d'))
   \<and> (parse_record q = Inl e \<longrightarrow>
        (\<exists>el. find_desc q ''requestInTs'' = Some el \<and> timestamp_of_text (text_of el) = Inl e)
        \<or> (\<exists>el. find_desc q ''responseOutTs'' = Some el
              \<and> timestamp_of_text (text_of el) = Inl e)
        \<or> (\<exists>el. find_desc q ''requestSize'' = Some el \<and> py_int (text_of el) = Inl e)
        \<or> (\<exists>el. find_desc q ''responseSize'' = Some el \<and> py_int (text_of el) = Inl e)
        \<or> (\<exists>el. find_desc q ''succeeded'' = Some el
              \<and> succeeded_of_text (text_of el) = Inl e))
   \<and> parse_operational_data_response (Inr (response_of [full_record, partial_record]))
       = ([full_data, partial_data], [])"
proof -
  have loop: "parse_operational_data_response (Inr root_elem) =
     (concat (map (\<lambda>r. case parse_record r of Inl e \<Rightarrow> [] | Inr d \<Rightarrow> [d])
        (findall_desc_child root_elem ''operationalDataRecords'' ''operationalDataRecord'')),
      concat (map (\<lambda>r. case parse_record r of Inl e \<Rightarrow> [LogWarning e] | Inr d \<Rightarrow> [])
        (findall_desc_child root_elem ''operationalDataRecords'' ''operationalDataRecord'')))"
    by (simp add: parse_operational_data_response_def prod_eq_iff
        process_records_fst process_records_snd)
  show ?thesis
    by (intro conjI)
      (rule loop parse_record_defaults parse_response_two parse_response_three
        parse_record_values parse_record_returns parse_record_fails
        parse_response_partial)+
qed

theorem parse_operational_tolerant_witness:
  "parse_record partial_record = Inr partial_data
   \<and> find_desc partial_record ''clientXRoadRequestId'' = None
   \<and> find_desc partial_record ''requestInTs'' = None
   \<and> find_desc partial_record ''responseSize'' = None
   \<and> find_desc partial_record ''succeeded'' = None
   \<and> find_desc partial_record ''serviceXRoadRequestId''
       = Some (leaf ''serviceXRoadRequestId'' ''svc-1'')
   \<and> find_desc partial_record ''responseOutTs'' = Some (leaf ''responseOutTs'' ''1700000000250'')
   \<and> timestamp_of_text (Some ''1700000000250'') = Inr (Some 1700000000250000)
   \<and> find_desc partial_record ''requestSize'' = Some (leaf ''requestSize'' ''512'')
   \<and> py_int (Some ''512'') = Inr 512
   \<and> service_id partial_data = Some ''svc-1'' \<and> client_id partial_data = Some ''Unknown''
   \<and> request_timestamp partial_data = None
   \<and> response_timestamp partial_data = Some 1700000000250000
   \<and> request_size partial_data = 512 \<and> response_size partial_data = 0
   \<and> \<not> success partial_data
   \<and> parse_record broken_record = Inl ValueError
   \<and> find_desc broken_record ''requestSize'' = Some (leaf ''requestSize'' ''abc'')
   \<and> py_int (Some ''abc'') = Inl ValueError
   \<and> parse_record bare_record = Inr default_data
   \<and> parse_operational_data_response (Inr (response_of [full_record, partial_record]))
       = ([full_data, partial_data], [])
   \<and> parse_operational_data_response (Inr (response_of [full_record, bare_record]))
       = ([full_data, default_data], [])"
proof -
  note t = parse_operational_tolerant [of "response_of [full_record, partial_record]"
      partial_record partial_data broken_record ValueError]
  note defaults = t [THEN conjunct2, THEN conjunct1]
  note vals = t [THEN conjunct2, THEN conjunct2, THEN conjunct2, THEN conjunct2,
      THEN conjunct1]
  note returns = t [THEN conjunct2, THEN conjunct2, THEN conjunct2, THEN conjunct2,
      THEN conjunct2, THEN conjunct1]
  have present: "timestamp_of_text (Some ''1700000000250'') = Inr (Some 1700000000250000)"
    "py_int (Some ''512'') = Inr 512" "py_int (Some ''abc'') = Inl ValueError"
    by (simp_all add: timestamp_of_text_examples py_int_examples)
  have "\<exists>d'. parse_record partial_record = Inr d'"
    using returns by (simp add: find_desc_partial_record present)
  then have p: "parse_record partial_record = Inr partial_data"
    by (simp add: parse_partial_record)
  have dflt: "client_id partial_data = Some ''Unknown'' \<and> request_timestamp partial_data = None
      \<and> response_size partial_data = 0 \<and> \<not> success partial_data"
    using defaults p by (simp add: find_desc_partial_record)
  have given: "service_id partial_data = Some ''svc-1''
      \<and> response_timestamp partial_data = Some 1700000000250000
      \<and> request_size partial_data = 512"
    using vals p by (simp add: find_desc_partial_record present)
  from p dflt given present show ?thesis
    by (simp add: find_desc_partial_record find_desc_broken_record parse_broken_record
        parse_bare_record parse_response_partial parse_response_two)
qed

text \<open>
  C5.  When the text of the response is not a well-formed document, so that
  \<open>ET.fromstring\<close> raises, the parser returns the empty list and writes one error to
  the log.  The result of the parser has no branch for an exception: every exception of
  its body is caught by one of its two handlers.
\<close>

theorem parse_operational_not_well_formed:
  "parse_operational_data_response (Inl e) = ([], [LogError e])"
  by (simp add: parse_operational_data_response_def)

text \<open>
  C10.  Every record that the parser returns has the producer identifier \<open>Unknown\<close>,
  whatever the document holds.
\<close>

theorem parse_operational_producer_unknown:
  "\<forall>d \<in> set (fst (parse_operational_data_response doc)). producer_id d = ''Unknown''"
proof
  fix d assume "d \<in> set (fst (parse_operational_data_response doc))"
  then obtain r where "parse_record r = Inr d"
    using parsed_record_origin by blast
  then show "producer_id d = ''Unknown''"
    by (auto simp: parse_record_def Let_def split: sum.splits)
qed

theorem parse_operational_producer_unknown_witness:
  "fst (parse_operational_data_response (Inr (response_of [full_record, bare_record])))
     = [full_data, default_data]
   \<and> producer_id full_data = ''Unknown'' \<and> producer_id default_data = ''Unknown''"
  using parse_operational_producer_unknown [of "Inr (response_of [full_record, bare_record])"]
  by (simp add: parse_response_two)

lemma parse_record_duration:
  "parse_record r = Inr d \<Longrightarrow>
     request_duration d = duration_of (request_timestamp d) (response_timestamp d)"
  by (auto simp: parse_record_def Let_def split: sum.splits)

text \<open>
  C2 (as amended).  For every record that the parser returns, the duration is present
  exactly when both timestamps are, and it is then the value that line 233 computes from
  their difference, with no clamp: when the difference is a whole number \<open>k\<close> of
  milliseconds (below \<open>2^51\<close>), the duration is \<open>k\<close> or its neighbour towards zero,
  negative differences included, and the record is returned all the same.  For a response
  250 ms after the request the duration is 250.
\<close>

theorem parsed_record_duration:
  "\<forall>d \<in> set (fst (parse_operational_data_response doc)).
     ((request_duration d \<noteq> None) =
        (request_timestamp d \<noteq> None \<and> response_timestamp d \<noteq> None))
     \<and> (\<forall>a b. request_timestamp d = Some a \<longrightarrow> response_timestamp d = Some b \<longrightarrow>
           request_duration d = Some (duration_ms a b)
           \<and> (\<forall>k. \<bar>k\<bar> < 2 ^ 51 \<longrightarrow> b - a = 1000 * k \<longrightarrow>
                  \<bar>duration_ms a b - k\<bar> \<le> 1 \<and> \<bar>duration_ms a b\<bar> \<le> \<bar>k\<bar>)
           \<and> (b = a + 250000 \<longrightarrow> request_duration d = Some 250))"
proof
  fix d assume "d \<in> set (fst (parse_operational_data_response doc))"
  then obtain r where "parse_record r = Inr d"
    using parsed_record_origin by blast
  then have dur: "request_duration d = duration_of (request_timestamp d) (response_timestamp d)"
    by (rule parse_record_duration)
  have presence: "(request_duration d \<noteq> None) =
      (request_timestamp d \<noteq> None \<and> response_timestamp d \<noteq> None)"
    by (simp add: dur duration_of_def split: option.splits)
  have "request_duration d = Some (duration_ms a b)
        \<and> (\<forall>k. \<bar>k\<bar> < 2 ^ 51 \<longrightarrow> b - a = 1000 * k \<longrightarrow>
                  \<bar>duration_ms a b - k\<bar> \<le> 1 \<and> \<bar>duration_ms a b\<bar> \<le> \<bar>k\<bar>)
        \<and> (b = a + 250000 \<longrightarrow> request_duration d = Some 250)"
    if "request_timestamp d = Some a" "response_timestamp d = Some b" for a b
  proof -
    have 1: "request_duration d = Some (duration_ms a b)"
      using that by (simp add: dur duration_of_def)
    have 2: "\<forall>k. \<bar>k\<bar> < 2 ^ 51 \<longrightarrow> b - a = 1000 * k \<longrightarrow>
                  \<bar>duration_ms a b - k\<bar> \<le> 1 \<and> \<bar>duration_ms a b\<bar> \<le> \<bar>k\<bar>"
      using duration_ms_whole by blast
    have 3: "b = a + 250000 \<longrightarrow> request_duration d = Some 250"
      using 1 by (simp add: duration_ms_250)
    from 1 2 3 show ?thesis by blast
  qed
  with presence show "((request_duration d \<noteq> None) =
        (request_timestamp d \<noteq> None \<and> response_timestamp d \<noteq> None))
     \<and> (\<forall>a b. request_timestamp d = Some a \<longrightarrow> response_timestamp d = Some b \<longrightarrow>
           request_duration d = Some (duration_ms a b)
           \<and> (\<forall>k. \<bar>k\<bar> < 2 ^ 51 \<longrightarrow> b - a = 1000 * k \<longrightarrow>
                  \<bar>duration_ms a b - k\<bar> \<le> 1 \<and> \<bar>duration_ms a b\<bar> \<le> \<bar>k\<bar>)
           \<and> (b = a + 250000 \<longrightarrow> request_duration d = Some 250))"
    by blast
qed

theorem parsed_record_duration_witness:
  "fst (parse_operational_data_response (Inr (response_of [full_record, bare_record])))
     = [full_data, default_data]
   \<and> request_timestamp full_data = Some 1700000000000000
   \<and> response_timestamp full_data = Some (1700000000000000 + 250000)
   \<and> request_duration full_data = Some 250
   \<and> \<bar>250 :: int\<bar> < 2 ^ 51
   \<and> (1700000000000000 + 250000) - 1700000000000000 = 1000 * (250 :: int)
   \<and> \<bar>duration_ms 1700000000000000 (1700000000000000 + 250000) - 250\<bar> \<le> 1
   \<and> request_timestamp default_data = None \<and> request_duration default_data = None"
  using parsed_record_duration [of "Inr (response_of [full_record, bare_record])"]
  by (simp add: parse_response_two full_data_def default_data_def duration_ms_250)

text \<open>
  The claim as stated fails on a record whose response precedes its request by half a
  second: the record is returned, with the duration -500.
\<close>

theorem duration_clamp_counterexample:
  "parse_operational_data_response (Inr (response_of [backwards_record]))
     = ([backwards_data], [])
   \<and> request_timestamp backwards_data = Some 1000000
   \<and> response_timestamp backwards_data = Some 500000
   \<and> request_duration backwards_data = Some (- 500)
   \<and> (- 500 :: int) < 0"
  by (simp add: parse_response_backwards backwards_data_def)

section \<open>The data store\<close>

lemma insert_all_appends:
  assumes "\<forall>d \<in> set ds. bindable d \<and> service_id d \<noteq> None \<and> client_id d \<noteq> None"
  shows "insert_all ds rows = Inr (rows @ ds)"
  using assms by (induction ds arbitrary: rows) (auto simp: insert_or_ignore_def)

lemma store_operational_appends:
  assumes "\<forall>d \<in> set ds. bindable d \<and> service_id d \<noteq> None \<and> client_id d \<noteq> None"
  shows "store_operational_data None db ds
           = Inr (db\<lparr> operational_data := operational_data db @ ds \<rparr>)"
  by (simp add: store_operational_data_def insert_all_appends [OF assms])

text \<open>
  C1.  The table has no uniqueness constraint, so \<open>INSERT OR IGNORE\<close> ignores nothing
  but a missing service or client: storing one record into the empty database gives one
  row, and storing the same record again gives a second, equal row.
\<close>

theorem store_operational_twice:
  "store_operational_data None empty_db [full_data]
     = Inr \<lparr> operational_data = [full_data], health_data = [] \<rparr>
   \<and> store_operational_data None \<lparr> operational_data = [full_data], health_data = [] \<rparr>
       [full_data]
     = Inr \<lparr> operational_data = [full_data, full_data], health_data = [] \<rparr>"
  by (simp add: store_operational_data_def empty_db_def insert_or_ignore_def bindable_def
      sqlite_int_def full_data_def)

section \<open>Analytics\<close>


lemma non_null_append [simp]: "non_null (xs @ ys) = non_null xs @ non_null ys"
  by (simp add: non_null_def)

lemma non_null_simps [simp]:
  "non_null [] = []" "non_null (None # xs) = non_null xs"
  "non_null (Some v # xs) = v # non_null xs"
  by (simp_all add: non_null_def)







lemma timedelta_days:
  "timedelta (days * 86400000000) =
     (if - 999999999 \<le> days \<and> days \<le> 999999999 then Inr (days * 86400000000)
      else Inl OverflowError)"
  by (simp add: timedelta_def)


lemma analytics_returns:
  assumes "- 999999999 \<le> days" "days \<le> 999999999"
    and "datetime_min \<le> now - days * 86400000000"
    and "now - days * 86400000000 \<le> datetime_max"
  shows "get_service_analytics db now sid days =
     Inr (case sid of
            None \<Rightarrow>
              AllServices (all_services_query (now - days * 86400000000) (operational_data db))
          | Some s \<Rightarrow>
              if s = [] then
                AllServices (all_services_query (now - days * 86400000000) (operational_data db))
              else OneService (service_query s (now - days * 86400000000) (operational_data db)))"
  using assms
  by (simp add: get_service_analytics_def timedelta_days datetime_sub_def split: option.splits)











lemma in_window_examples:
  "in_window 1699395800000000 row_ok_100" "in_window 1699395800000000 row_ok_300"
  "in_window 1699395800000000 row_failed" "in_window 1699395800000000 row_other"
  "\<not> in_window 1699395800000000 row_old"
  by (simp_all add: in_window_def row_ok_100_def row_ok_300_def row_failed_def row_other_def
      row_old_def)

lemma service_id_examples:
  "service_id row_ok_100 = Some ''svc-1''" "service_id row_ok_300 = Some ''svc-1''"
  "service_id row_failed = Some ''svc-1''" "service_id row_other = Some ''svc-0''"
  by (simp_all add: row_ok_100_def row_ok_300_def row_failed_def row_other_def)




lemma window_examples:
  "1700000600000000 - 7 * 86400000000 = (1699395800000000 :: int)"
  "datetime_min \<le> 1699395800000000" "1699395800000000 \<le> datetime_max"
  by (simp_all add: datetime_min_def datetime_max_def)


lemma service_query_mixed:
  "service_query ''svc-1'' 1699395800000000 (operational_data mixed_db)
     = summarize [row_ok_100, row_failed, row_ok_300]"
  by (simp add: service_query_def mixed_db_def in_window_examples service_id_examples)





lemma analytics_mixed_service:
  "get_service_analytics mixed_db 1700000600000000 (Some ''svc-1'') 7 =
     Inr (OneService (summarize [row_ok_100, row_failed, row_ok_300]))"
  using analytics_returns [of 7 1700000600000000 mixed_db "Some ''svc-1''"]
  by (simp add: window_examples service_query_mixed)





section \<open>Identifiers and request documents\<close>

lemma split_slash_not_Nil [simp]: "split_slash s \<noteq> []"
  by (induction s) (auto split: list.splits)

lemma length_split_slash:
  "length (split_slash s) = Suc (length (filter (\<lambda>c. c = CHR ''/'') s))"
  by (induction s) (auto split: list.splits)

lemma member_class_code_cases:
  "member_class_code s =
     (if 3 \<le> length (split_slash s) then Inr (split_slash s ! 1, split_slash s ! 2)
      else Inl IndexError)"
  by (auto simp: member_class_code_def py_index_def)

lemma split_slash_examples:
  "split_slash ''DEV/GOV/12345'' = [''DEV'', ''GOV'', ''12345'']"
  "split_slash ''GOV/12345'' = [''GOV'', ''12345'']"
  by simp_all

text \<open>
  C7 (as amended).  The member class and the member code are the second and the third
  of the segments that the slashes of the identifier separate (there is one segment more
  than there are slashes).  The extraction succeeds exactly for an identifier with at
  least three segments; with fewer it raises IndexError.  It is a function of the string
  alone.
\<close>

theorem member_class_code_segments:
  "length (split_slash s) = Suc (length (filter (\<lambda>c. c = CHR ''/'') s))
   \<and> member_class_code s =
       (if 3 \<le> length (split_slash s) then Inr (split_slash s ! 1, split_slash s ! 2)
        else Inl IndexError)
   \<and> member_class_code ''DEV/GOV/12345'' = Inr (''GOV'', ''12345'')"
  using length_split_slash [of s] member_class_code_cases [of s]
  by (simp add: member_class_code_def py_index_def)

text \<open>
  The claim as stated fails on an identifier of two segments, class and code: the
  extraction raises IndexError.
\<close>

theorem two_segments_counterexample:
  "length (split_slash ''GOV/12345'') = 2
   \<and> member_class_code ''GOV/12345'' = Inl IndexError"
  by (simp add: member_class_code_def py_index_def)

lemma build_health_cases:
  "build_health_data_request cfg now server_id =
     (if 3 \<le> length (split_slash (cfg_client_id cfg)) then
        Inr (health_part0 @ xroad_instance cfg @ health_part1
             @ split_slash (cfg_client_id cfg) ! 1 @ health_part2
             @ split_slash (cfg_client_id cfg) ! 2 @ health_part3 @ xroad_instance cfg
             @ health_part4 @ strftime_YmdHMS now @ health_part5)
      else Inl IndexError)"
  by (simp add: build_health_data_request_def member_class_code_cases)

lemma client_filter_xml_cases:
  "client_filter_xml cfg client_filter = Inl e \<longleftrightarrow>
     e = IndexError \<and> (\<exists>cf. client_filter = Some cf \<and> cf \<noteq> []
       \<and> length (split_slash cf) < 3)"
  by (auto simp: client_filter_xml_def member_class_code_cases split: option.splits)

lemma timestamp_cases:
  "timestamp d = Inl e \<longleftrightarrow> e = ValueError \<and> d < - 62135510400000000"
  by (auto simp: timestamp_def)

lemma timestamp_ok:
  "- 62135510400000000 \<le> d \<Longrightarrow>
     timestamp d = Inr (fl (of_int (d div 1000000) + fl (of_int (d mod 1000000) / 1000000)))"
  by (simp add: timestamp_def)

lemma build_operational_fails:
  "build_operational_data_request cfg now records_from records_to client_filter = Inl e \<longleftrightarrow>
     e = ValueError
       \<and> (records_from < - 62135510400000000 \<or> records_to < - 62135510400000000)
     \<or> e = IndexError
       \<and> - 62135510400000000 \<le> records_from \<and> - 62135510400000000 \<le> records_to
       \<and> (length (split_slash (cfg_client_id cfg)) < 3
          \<or> (\<exists>cf. client_filter = Some cf \<and> cf \<noteq> [] \<and> length (split_slash cf) < 3))"
proof (cases "records_from < - 62135510400000000 \<or> records_to < - 62135510400000000")
  case True
  then show ?thesis
    by (auto simp: build_operational_data_request_def timestamp_def)
next
  case False
  then have ok: "- 62135510400000000 \<le> records_from" "- 62135510400000000 \<le> records_to"
    by simp_all
  show ?thesis
  proof (cases "client_filter_xml cfg client_filter")
    case (Inl x)
    then show ?thesis
      using client_filter_xml_cases [of cfg client_filter x] ok
      by (auto simp: build_operational_data_request_def Let_def timestamp_ok)
  next
    case (Inr xml)
    then have "\<not> (\<exists>cf. client_filter = Some cf \<and> cf \<noteq> [] \<and> length (split_slash cf) < 3)"
      using client_filter_xml_cases [of cfg client_filter IndexError] by auto
    with Inr ok show ?thesis
      by (auto simp: build_operational_data_request_def Let_def timestamp_ok
          member_class_code_cases)
  qed
qed

lemma build_operational_clock:
  "build_operational_data_request cfg now1 records_from records_to client_filter
     = build_operational_data_request cfg now2 records_from records_to client_filter \<longleftrightarrow>
   strftime_YmdHMS now1 = strftime_YmdHMS now2
   \<or> (\<exists>e. build_operational_data_request cfg now1 records_from records_to client_filter
         = Inl e)"
  by (auto simp: build_operational_data_request_def Let_def member_class_code_cases
      client_filter_xml_def split: option.splits sum.splits)

lemma build_health_clock:
  "build_health_data_request cfg now1 server_id
     = build_health_data_request cfg now2 server_id \<longleftrightarrow>
   strftime_YmdHMS now1 = strftime_YmdHMS now2
   \<or> build_health_data_request cfg now1 server_id = Inl IndexError"
  by (auto simp: build_health_cases)

lemma strftime_examples:
  "strftime_YmdHMS 1793813640000000 = ''20261104173400''"
  "strftime_YmdHMS 1793813641000000 = ''20261104173401''"
  by code_simp+

text \<open>
  C8 (as amended).  The request documents are functions of the arguments, the
  configuration and the reading of the clock that is formatted into the request id.  With
  everything else equal, the documents built at two readings are the same exactly when
  the two readings format to the same second, or when the builder raises.  The health
  request raises nothing but IndexError, exactly when the client identifier of the
  configuration has fewer than three segments.  The operational request raises
  ValueError exactly when a bound of the period lies before 0001-01-02 00:00:00, where
  \<open>timestamp()\<close> cannot be computed; otherwise it raises nothing but IndexError,
  exactly when the client identifier or a non-empty client filter has fewer than three
  segments.
\<close>

theorem request_builders_clock:
  "(build_operational_data_request cfg now1 records_from records_to client_filter
      = build_operational_data_request cfg now2 records_from records_to client_filter) =
     (strftime_YmdHMS now1 = strftime_YmdHMS now2
      \<or> (\<exists>x. build_operational_data_request cfg now1 records_from records_to client_filter
            = Inl x))
   \<and> (build_health_data_request cfg now1 server_id
        = build_health_data_request cfg now2 server_id) =
     (strftime_YmdHMS now1 = strftime_YmdHMS now2
      \<or> build_health_data_request cfg now1 server_id = Inl IndexError)
   \<and> (build_health_data_request cfg now1 server_id = Inl e) =
     (e = IndexError \<and> length (split_slash (cfg_client_id cfg)) < 3)
   \<and> (build_operational_data_request cfg now1 records_from records_to client_filter = Inl e) =
     (e = ValueError
        \<and> (records_from < - 62135510400000000 \<or> records_to < - 62135510400000000)
      \<or> e = IndexError
        \<and> - 62135510400000000 \<le> records_from \<and> - 62135510400000000 \<le> records_to
        \<and> (length (split_slash (cfg_client_id cfg)) < 3
           \<or> (\<exists>cf. client_filter = Some cf \<and> cf \<noteq> [] \<and> length (split_slash cf) < 3)))"
proof -
  note a = build_operational_clock [of cfg now1 records_from records_to client_filter now2]
  note b = build_health_clock [of cfg now1 server_id now2]
  have c: "(build_health_data_request cfg now1 server_id = Inl e) =
     (e = IndexError \<and> length (split_slash (cfg_client_id cfg)) < 3)"
    by (auto simp: build_health_cases)
  note d = build_operational_fails [of cfg now1 records_from records_to client_filter e]
  from a b c d show ?thesis by blast
qed

text \<open>
  The claim as stated fails for two invocations with equal arguments one second apart:
  the two health requests differ, and so do the two operational requests.  It also fails
  in what it says of failures: with a well-formed client identifier the operational
  request raises ValueError for a period that starts at noon of 0001-01-01, and with the
  identifier \<open>GOV/12345\<close> of a class and a code the health request raises IndexError.
\<close>

theorem equal_inputs_counterexample:
  "build_health_data_request example_cfg 1793813640000000 None
     \<noteq> build_health_data_request example_cfg 1793813641000000 None
   \<and> build_operational_data_request example_cfg 1793813640000000
        1793806440000000 1793813640000000 None
     \<noteq> build_operational_data_request example_cfg 1793813641000000
        1793806440000000 1793813640000000 None
   \<and> build_operational_data_request example_cfg 1793813640000000
        (- 62135553600000000) 1793813640000000 None = Inl ValueError
   \<and> build_health_data_request (example_cfg\<lparr> cfg_client_id := ''GOV/12345'' \<rparr>)
        1793813640000000 None = Inl IndexError"
proof -
  have seg: "length (split_slash (cfg_client_id example_cfg)) = 3"
    by (simp add: example_cfg_def)
  have h: "build_health_data_request example_cfg 1793813640000000 None \<noteq> Inl IndexError"
    by (simp add: build_health_cases seg)
  have o: "build_operational_data_request example_cfg 1793813640000000
        1793806440000000 1793813640000000 None \<noteq> Inl x" for x
    using build_operational_fails [of example_cfg 1793813640000000
        1793806440000000 1793813640000000 None x]
    by (simp add: seg)
  have v: "build_operational_data_request example_cfg 1793813640000000
        (- 62135553600000000) 1793813640000000 None = Inl ValueError"
    using build_operational_fails [of example_cfg 1793813640000000
        "- 62135553600000000" 1793813640000000 None ValueError]
    by simp
  have i: "build_health_data_request (example_cfg\<lparr> cfg_client_id := ''GOV/12345'' \<rparr>)
        1793813640000000 None = Inl IndexError"
    by (simp add: build_health_cases)
  from h o v i show ?thesis
    by (simp add: build_health_clock build_operational_clock strftime_examples)
qed

section \<open>Health data\<close>

lemma parse_stats_avg:
  assumes "parse_stats float_of_str stats_elem = Inr stats"
  shows "(find_desc stats_elem ''requestMinDuration'' = None \<longrightarrow> avgDuration stats = None)
       \<and> (\<forall>el. find_desc stats_elem ''requestMinDuration'' = Some el \<longrightarrow>
            py_float float_of_str (text_of el) = Inr (the (avgDuration stats))
            \<and> avgDuration stats \<noteq> None)"
  using assms
  by (auto simp: parse_stats_def opt_key_def split: sum.splits option.splits)

lemma parse_service_event_stats:
  assumes "parse_service_event float_of_str ev = Inr sd"
  shows "(find_desc ev ''lastPeriodStatistics'' = None \<longrightarrow> lastPeriodStatistics sd = None)
       \<and> (\<forall>st. find_desc ev ''lastPeriodStatistics'' = Some st \<longrightarrow>
            (\<exists>stats. parse_stats float_of_str st = Inr stats
               \<and> lastPeriodStatistics sd = Some stats))"
  using assms
  by (auto simp: parse_service_event_def Let_def split: sum.splits option.splits)

lemma health_row_avg:
  assumes "health_row_of sd = Inr row"
  shows "avg_duration row =
           sqlite_real (case lastPeriodStatistics sd of
                          None \<Rightarrow> Finite 0
                        | Some stats \<Rightarrow>
                            (case avgDuration stats of None \<Rightarrow> Finite 0 | Some x \<Rightarrow> x))"
  using assms
  by (auto simp: health_row_of_def Let_def split: sum.splits option.splits if_splits)

lemma tag_stats_block [simp]: "tag stats_block = m_tag ''lastPeriodStatistics''"
  by (simp add: stats_block_def)

lemma find_desc_service_event_stats:
  "find_desc service_event_stats ''serviceCode'' = Some (leaf ''serviceCode'' ''getRandom'')"
  "find_desc service_event_stats ''lastSuccessfulRequestTimestamp'' = None"
  "find_desc service_event_stats ''lastUnsuccessfulRequestTimestamp'' = None"
  "find_desc service_event_stats ''lastPeriodStatistics'' = Some stats_block"
  by (simp_all add: find_desc_def descendants_def service_event_stats_def)
     (simp_all add: stats_block_def)

lemma find_desc_stats_block:
  "find_desc stats_block ''successfulRequestCount''
     = Some (leaf ''successfulRequestCount'' ''7'')"
  "find_desc stats_block ''unsuccessfulRequestCount''
     = Some (leaf ''unsuccessfulRequestCount'' ''1'')"
  "find_desc stats_block ''requestMinDuration'' = Some (leaf ''requestMinDuration'' ''12.5'')"
  by (simp_all add: find_desc_def descendants_def stats_block_def)

lemma py_int_small: "py_int (Some ''7'') = Inr 7" "py_int (Some ''1'') = Inr 1"
  by code_simp+

lemma parse_service_event_stats_example:
  "parse_service_event example_float service_event_stats = Inr stats_service"
  by (simp add: parse_service_event_def find_desc_service_event_stats parse_stats_def
      find_desc_stats_block opt_key_def py_int_small py_float_def example_float_def
      stats_service_def)

lemma parse_service_event_plain_example:
  "parse_service_event example_float service_event_plain = Inr plain_service"
  by (simp add: parse_service_event_def find_desc_def descendants_def service_event_plain_def
      opt_key_def plain_service_def)

lemma find_desc_service_event_plain:
  "find_desc service_event_plain ''lastPeriodStatistics'' = None"
  by (simp add: find_desc_def descendants_def service_event_plain_def)

lemma health_row_examples:
  "health_row_of stats_service = Inr stats_row"
  "health_row_of plain_service = Inr plain_row"
  by (simp_all add: health_row_of_def stats_service_def plain_service_def stats_row_def
      plain_row_def health_time_def sqlite_int_def sqlite_real_def)

lemma service_event_row_avg:
  assumes ev: "parse_service_event float_of_str ev = Inr sd"
    and row: "health_row_of sd = Inr row"
  shows "(find_desc ev ''lastPeriodStatistics'' = None \<longrightarrow> avg_duration row = Some (Finite 0))
     \<and> (\<forall>st. find_desc ev ''lastPeriodStatistics'' = Some st \<longrightarrow>
          (find_desc st ''requestMinDuration'' = None \<longrightarrow> avg_duration row = Some (Finite 0))
          \<and> (\<forall>el. find_desc st ''requestMinDuration'' = Some el \<longrightarrow>
               (\<exists>x. py_float float_of_str (text_of el) = Inr x
                  \<and> avg_duration row = sqlite_real x)))"
proof -
  note s = parse_service_event_stats [OF ev] and r = health_row_avg [OF row]
  have a: "find_desc ev ''lastPeriodStatistics'' = None \<longrightarrow> avg_duration row = Some (Finite 0)"
    using s r by (auto simp: sqlite_real_def)
  have b: "(find_desc st ''requestMinDuration'' = None \<longrightarrow> avg_duration row = Some (Finite 0))
          \<and> (\<forall>el. find_desc st ''requestMinDuration'' = Some el \<longrightarrow>
               (\<exists>x. py_float float_of_str (text_of el) = Inr x
                  \<and> avg_duration row = sqlite_real x))"
    if "find_desc ev ''lastPeriodStatistics'' = Some st" for st
  proof -
    from s that obtain stats where st: "parse_stats float_of_str st = Inr stats"
      and l: "lastPeriodStatistics sd = Some stats" by blast
    note p = parse_stats_avg [OF st]
    show ?thesis using p r l by (auto simp: sqlite_real_def)
  qed
  from a b show ?thesis by blast
qed

lemma service_event_dict_avg:
  assumes ev: "parse_service_event float_of_str ev = Inr sd"
  shows "(find_desc ev ''lastPeriodStatistics'' = None \<longrightarrow> lastPeriodStatistics sd = None)
     \<and> (\<forall>st. find_desc ev ''lastPeriodStatistics'' = Some st \<longrightarrow>
          (\<exists>stats. lastPeriodStatistics sd = Some stats
             \<and> (find_desc st ''requestMinDuration'' = None \<longrightarrow> avgDuration stats = None)
             \<and> (\<forall>el. find_desc st ''requestMinDuration'' = Some el \<longrightarrow>
                  (\<exists>x. py_float float_of_str (text_of el) = Inr x
                     \<and> avgDuration stats = Some x))))"
proof -
  note s = parse_service_event_stats [OF ev]
  have b: "\<exists>stats. lastPeriodStatistics sd = Some stats
             \<and> (find_desc st ''requestMinDuration'' = None \<longrightarrow> avgDuration stats = None)
             \<and> (\<forall>el. find_desc st ''requestMinDuration'' = Some el \<longrightarrow>
                  (\<exists>x. py_float float_of_str (text_of el) = Inr x
                     \<and> avgDuration stats = Some x))"
    if "find_desc ev ''lastPeriodStatistics'' = Some st" for st
  proof -
    from s that obtain stats where st: "parse_stats float_of_str st = Inr stats"
      and l: "lastPeriodStatistics sd = Some stats" by blast
    note p = parse_stats_avg [OF st]
    from p l show ?thesis by auto
  qed
  from s b show ?thesis by blast
qed

lemma parse_service_events_all2:
  "parse_service_events float_of_str evs acc = Inr svcs \<longleftrightarrow>
     (\<exists>new. svcs = acc @ new
        \<and> list_all2 (\<lambda>ev sd. parse_service_event float_of_str ev = Inr sd) evs new)"
proof (induction evs arbitrary: acc)
  case Nil
  then show ?case by auto
next
  case (Cons ev evs)
  show ?case
  proof (cases "parse_service_event float_of_str ev")
    case (Inl e)
    then show ?thesis by (auto simp: list_all2_Cons1)
  next
    case (Inr sd)
    then show ?thesis
      by (auto simp: Cons.IH list_all2_Cons1)
  qed
qed

lemma insert_health_all2:
  "insert_health ss rows = Inr rows' \<longleftrightarrow>
     (\<exists>new. rows' = rows @ new
        \<and> list_all2 (\<lambda>sd row. health_row_of sd = Inr row) ss new)"
proof (induction ss arbitrary: rows)
  case Nil
  then show ?case by auto
next
  case (Cons s ss)
  show ?case
  proof (cases "health_row_of s")
    case (Inl e)
    then show ?thesis by (auto simp: list_all2_Cons1)
  next
    case (Inr r)
    then show ?thesis
      by (auto simp: Cons.IH list_all2_Cons1)
  qed
qed

lemma all2_functional:
  assumes "list_all2 (\<lambda>a b. g a = Inr b) xs ys" and "list_all2 (\<lambda>a b. g a = Inr b) xs zs"
  shows "ys = zs"
  using assms by (induction xs arbitrary: ys zs) (auto simp: list_all2_Cons1)

lemma store_health_all2:
  "store_health_data None db svcs = Inr db' \<longleftrightarrow>
     (\<exists>rows. db' = db\<lparr> health_data := health_data db @ rows \<rparr>
        \<and> list_all2 (\<lambda>sd row. health_row_of sd = Inr row) svcs rows)"
proof (cases "insert_health svcs (health_data db)")
  case (Inl e)
  with insert_health_all2 [of svcs "health_data db"] show ?thesis
    by (auto simp: store_health_data_def)
next
  case (Inr rows')
  with insert_health_all2 [of svcs "health_data db" rows'] show ?thesis
    by (auto simp: store_health_data_def dest: all2_functional)
qed

lemma parse_health_services:
  "services (fst (parse_health_data_response float_of_str (Inr root_elem))) = Some svcs \<longleftrightarrow>
     (\<exists>a. opt_key (find_desc root_elem ''monitoringStartupTimestamp'') py_int = Inr a)
     \<and> (\<exists>b. opt_key (find_desc root_elem ''statisticsPeriodSeconds'') py_int = Inr b)
     \<and> list_all2 (\<lambda>ev sd. parse_service_event float_of_str ev = Inr sd)
         (findall_desc_child root_elem ''servicesEvents'' ''serviceEvents'') svcs"
proof (cases "parse_service_events float_of_str
    (findall_desc_child root_elem ''servicesEvents'' ''serviceEvents'') []")
  case (Inl e)
  with parse_service_events_all2 [of float_of_str
      "findall_desc_child root_elem ''servicesEvents'' ''serviceEvents''" "[]" svcs]
  show ?thesis
    by (auto simp: parse_health_data_response_def Let_def split: sum.splits)
next
  case (Inr found)
  with parse_service_events_all2 [of float_of_str
      "findall_desc_child root_elem ''servicesEvents'' ''serviceEvents''" "[]" found]
  show ?thesis
    by (auto simp: parse_health_data_response_def Let_def split: sum.splits
        dest: all2_functional)
qed

lemma health_rows_of_document:
  assumes p: "parse_health_data_response float_of_str (Inr root_elem) = (health, lg)"
    and s: "services health = Some svcs"
    and st: "store_health_data None db svcs = Inr db'"
  shows "\<exists>rows. health_data db' = health_data db @ rows
     \<and> operational_data db' = operational_data db
     \<and> list_all2 (\<lambda>ev row.
          (find_desc ev ''lastPeriodStatistics'' = None \<longrightarrow> avg_duration row = Some (Finite 0))
          \<and> (\<forall>st. find_desc ev ''lastPeriodStatistics'' = Some st \<longrightarrow>
               (find_desc st ''requestMinDuration'' = None \<longrightarrow>
                  avg_duration row = Some (Finite 0))
               \<and> (\<forall>el. find_desc st ''requestMinDuration'' = Some el \<longrightarrow>
                    (\<exists>x. py_float float_of_str (text_of el) = Inr x
                       \<and> avg_duration row = sqlite_real x))))
        (findall_desc_child root_elem ''servicesEvents'' ''serviceEvents'') rows"
proof -
  let ?evs = "findall_desc_child root_elem ''servicesEvents'' ''serviceEvents''"
  from p s have "services (fst (parse_health_data_response float_of_str (Inr root_elem)))
      = Some svcs" by simp
  then have a: "list_all2 (\<lambda>ev sd. parse_service_event float_of_str ev = Inr sd) ?evs svcs"
    by (simp add: parse_health_services)
  from st obtain rows where db': "db' = db\<lparr> health_data := health_data db @ rows \<rparr>"
    and b: "list_all2 (\<lambda>sd row. health_row_of sd = Inr row) svcs rows"
    by (auto simp: store_health_all2)
  have "list_all2 (\<lambda>ev row.
          (find_desc ev ''lastPeriodStatistics'' = None \<longrightarrow> avg_duration row = Some (Finite 0))
          \<and> (\<forall>st. find_desc ev ''lastPeriodStatistics'' = Some st \<longrightarrow>
               (find_desc st ''requestMinDuration'' = None \<longrightarrow>
                  avg_duration row = Some (Finite 0))
               \<and> (\<forall>el. find_desc st ''requestMinDuration'' = Some el \<longrightarrow>
                    (\<exists>x. py_float float_of_str (text_of el) = Inr x
                       \<and> avg_duration row = sqlite_real x)))) ?evs rows"
  proof (rule list_all2_trans [OF _ a b])
    fix ev sd row
    assume "parse_service_event float_of_str ev = Inr sd"
      and "health_row_of sd = Inr row"
    then show "(find_desc ev ''lastPeriodStatistics'' = None \<longrightarrow>
            avg_duration row = Some (Finite 0))
          \<and> (\<forall>st. find_desc ev ''lastPeriodStatistics'' = Some st \<longrightarrow>
               (find_desc st ''requestMinDuration'' = None \<longrightarrow>
                  avg_duration row = Some (Finite 0))
               \<and> (\<forall>el. find_desc st ''requestMinDuration'' = Some el \<longrightarrow>
                    (\<exists>x. py_float float_of_str (text_of el) = Inr x
                       \<and> avg_duration row = sqlite_real x)))"
      by (rule service_event_row_avg)
  qed
  with db' show ?thesis by auto
qed

lemma health_dict_of_document:
  assumes p: "parse_health_data_response float_of_str (Inr root_elem) = (health, lg)"
    and s: "services health = Some svcs"
  shows "list_all2 (\<lambda>ev sd.
          (find_desc ev ''lastPeriodStatistics'' = None \<longrightarrow> lastPeriodStatistics sd = None)
          \<and> (\<forall>st. find_desc ev ''lastPeriodStatistics'' = Some st \<longrightarrow>
               (\<exists>stats. lastPeriodStatistics sd = Some stats
                  \<and> (find_desc st ''requestMinDuration'' = None \<longrightarrow> avgDuration stats = None)
                  \<and> (\<forall>el. find_desc st ''requestMinDuration'' = Some el \<longrightarrow>
                       (\<exists>x. py_float float_of_str (text_of el) = Inr x
                          \<and> avgDuration stats = Some x)))))
        (findall_desc_child root_elem ''servicesEvents'' ''serviceEvents'') svcs"
proof -
  let ?evs = "findall_desc_child root_elem ''servicesEvents'' ''serviceEvents''"
  from p s have "services (fst (parse_health_data_response float_of_str (Inr root_elem)))
      = Some svcs" by simp
  then have a: "list_all2 (\<lambda>ev sd. parse_service_event float_of_str ev = Inr sd) ?evs svcs"
    by (simp add: parse_health_services)
  then show ?thesis
  proof (rule list_all2_mono)
    fix ev sd
    assume "parse_service_event float_of_str ev = Inr sd"
    then show "(find_desc ev ''lastPeriodStatistics'' = None \<longrightarrow> lastPeriodStatistics sd = None)
          \<and> (\<forall>st. find_desc ev ''lastPeriodStatistics'' = Some st \<longrightarrow>
               (\<exists>stats. lastPeriodStatistics sd = Some stats
                  \<and> (find_desc st ''requestMinDuration'' = None \<longrightarrow> avgDuration stats = None)
                  \<and> (\<forall>el. find_desc st ''requestMinDuration'' = Some el \<longrightarrow>
                       (\<exists>x. py_float float_of_str (text_of el) = Inr x
                          \<and> avgDuration stats = Some x))))"
      by (rule service_event_dict_avg)
  qed
qed

lemma py_int_health: "py_int (Some ''600'') = Inr 600"
  by code_simp

lemma tag_service_events [simp]:
  "tag service_event_stats = m_tag ''serviceEvents''"
  "tag service_event_plain = m_tag ''serviceEvents''"
  by (simp_all add: service_event_stats_def service_event_plain_def)

lemma iter_service_events:
  "iter service_event_stats =
     [service_event_stats, leaf ''serviceCode'' ''getRandom'', stats_block,
      leaf ''successfulRequestCount'' ''7'', leaf ''unsuccessfulRequestCount'' ''1'',
      leaf ''requestMinDuration'' ''12.5'', leaf ''requestAverageDuration'' ''40.0'']"
  "iter service_event_plain = [service_event_plain, leaf ''serviceCode'' ''getRandom'']"
  by (simp_all add: service_event_stats_def service_event_plain_def stats_block_def)

lemma children_service_events:
  "children (Element (m_tag ''servicesEvents'') None [service_event_stats, service_event_plain])
     = [service_event_stats, service_event_plain]"
  by simp

lemma find_health_document:
  "find_desc health_document ''monitoringStartupTimestamp''
     = Some (leaf ''monitoringStartupTimestamp'' ''1700000000000'')"
  "find_desc health_document ''statisticsPeriodSeconds''
     = Some (leaf ''statisticsPeriodSeconds'' ''600'')"
  "findall_desc_child health_document ''servicesEvents'' ''serviceEvents''
     = [service_event_stats, service_event_plain]"
  by (simp_all add: find_desc_def findall_desc_child_def descendants_def health_document_def
      iter_service_events)

lemma parse_health_document:
  "parse_health_data_response example_float (Inr health_document) = (health_of_document, [])"
  by (simp add: parse_health_data_response_def find_health_document opt_key_def
      py_int_examples py_int_health parse_service_event_stats_example
      parse_service_event_plain_example health_of_document_def)

lemma store_health_document:
  "store_health_data None empty_db [stats_service, plain_service] = Inr health_db"
  by (simp add: store_health_data_def health_row_examples empty_db_def health_db_def)

text \<open>
  C9.  For every health response document that parses to a dictionary with services, and
  every database into which these services are stored, the rows appended to
  \<open>health_data\<close> are one for each \<open>serviceEvents\<close> element, in document order, and
  the column \<open>avg_duration\<close> of a row is \<open>float\<close> of the text of the
  \<open>requestMinDuration\<close> element of the statistics block of its element (a NaN as
  \<open>NULL\<close>); it is 0.0 when the statistics block is absent, or has no such element.  The
  same value is what the dictionary of the service holds under \<open>avgDuration\<close>.  The
  dictionary has its services exactly when the two numbers of the header and every
  service event convert, and the store returns exactly when every service gives a row.
  In the example, with a minimum of 12.5 and an average of 40.0 on the wire, the stored
  rows have 12.5 and, for the service without statistics, 0.0.
\<close>

theorem avg_duration_is_min_duration:
  "(parse_health_data_response float_of_str (Inr root_elem) = (health, lg) \<longrightarrow>
    services health = Some svcs \<longrightarrow>
    store_health_data None db svcs = Inr db' \<longrightarrow>
      (\<exists>rows. health_data db' = health_data db @ rows
         \<and> operational_data db' = operational_data db
         \<and> list_all2 (\<lambda>ev row.
              (find_desc ev ''lastPeriodStatistics'' = None \<longrightarrow>
                 avg_duration row = Some (Finite 0))
              \<and> (\<forall>st. find_desc ev ''lastPeriodStatistics'' = Some st \<longrightarrow>
                   (find_desc st ''requestMinDuration'' = None \<longrightarrow>
                      avg_duration row = Some (Finite 0))
                   \<and> (\<forall>el. find_desc st ''requestMinDuration'' = Some el \<longrightarrow>
                        (\<exists>x. py_float float_of_str (text_of el) = Inr x
                           \<and> avg_duration row = sqlite_real x))))
            (findall_desc_child root_elem ''servicesEvents'' ''serviceEvents'') rows))
   \<and> (parse_health_data_response float_of_str (Inr root_elem) = (health, lg) \<longrightarrow>
      services health = Some svcs \<longrightarrow>
        list_all2 (\<lambda>ev sd.
            (find_desc ev ''lastPeriodStatistics'' = None \<longrightarrow> lastPeriodStatistics sd = None)
            \<and> (\<forall>st. find_desc ev ''lastPeriodStatistics'' = Some st \<longrightarrow>
                 (\<exists>stats. lastPeriodStatistics sd = Some stats
                    \<and> (find_desc st ''requestMinDuration'' = None \<longrightarrow>
                         avgDuration stats = None)
                    \<and> (\<forall>el. find_desc st ''requestMinDuration'' = Some el \<longrightarrow>
                         (\<exists>x. py_float float_of_str (text_of el) = Inr x
                            \<and> avgDuration stats = Some x)))))
          (findall_desc_child root_elem ''servicesEvents'' ''serviceEvents'') svcs)
   \<and> (services (fst (parse_health_data_response float_of_str (Inr root_elem))) = Some svcs) =
       ((\<exists>a. opt_key (find_desc root_elem ''monitoringStartupTimestamp'') py_int = Inr a)
        \<and> (\<exists>b. opt_key (find_desc root_elem ''statisticsPeriodSeconds'') py_int = Inr b)
        \<and> list_all2 (\<lambda>ev sd. parse_service_event float_of_str ev = Inr sd)
            (findall_desc_child root_elem ''servicesEvents'' ''serviceEvents'') svcs)
   \<and> (store_health_data None db svcs = Inr db') =
       (\<exists>rows. db' = db\<lparr> health_data := health_data db @ rows \<rparr>
          \<and> list_all2 (\<lambda>sd row. health_row_of sd = Inr row) svcs rows)
   \<and> parse_health_data_response example_float (Inr health_document) = (health_of_document, [])
   \<and> store_health_data None empty_db [stats_service, plain_service] = Inr health_db"
proof (intro conjI impI)
  assume p: "parse_health_data_response float_of_str (Inr root_elem) = (health, lg)"
    and s: "services health = Some svcs"
  from p s show "list_all2 (\<lambda>ev sd.
            (find_desc ev ''lastPeriodStatistics'' = None \<longrightarrow> lastPeriodStatistics sd = None)
            \<and> (\<forall>st. find_desc ev ''lastPeriodStatistics'' = Some st \<longrightarrow>
                 (\<exists>stats. lastPeriodStatistics sd = Some stats
                    \<and> (find_desc st ''requestMinDuration'' = None \<longrightarrow>
                         avgDuration stats = None)
                    \<and> (\<forall>el. find_desc st ''requestMinDuration'' = Some el \<longrightarrow>
                         (\<exists>x. py_float float_of_str (text_of el) = Inr x
                            \<and> avgDuration stats = Some x)))))
          (findall_desc_child root_elem ''servicesEvents'' ''serviceEvents'') svcs"
    by (rule health_dict_of_document)
next
  assume p: "parse_health_data_response float_of_str (Inr root_elem) = (health, lg)"
    and s: "services health = Some svcs"
    and st: "store_health_data None db svcs = Inr db'"
  from p s st show "\<exists>rows. health_data db' = health_data db @ rows
         \<and> operational_data db' = operational_data db
         \<and> list_all2 (\<lambda>ev row.
              (find_desc ev ''lastPeriodStatistics'' = None \<longrightarrow>
                 avg_duration row = Some (Finite 0))
              \<and> (\<forall>st. find_desc ev ''lastPeriodStatistics'' = Some st \<longrightarrow>
                   (find_desc st ''requestMinDuration'' = None \<longrightarrow>
                      avg_duration row = Some (Finite 0))
                   \<and> (\<forall>el. find_desc st ''requestMinDuration'' = Some el \<longrightarrow>
                        (\<exists>x. py_float float_of_str (text_of el) = Inr x
                           \<and> avg_duration row = sqlite_real x))))
            (findall_desc_child root_elem ''servicesEvents'' ''serviceEvents'') rows"
    by (rule health_rows_of_document)
next
  show "(services (fst (parse_health_data_response float_of_str (Inr root_elem))) = Some svcs) =
       ((\<exists>a. opt_key (find_desc root_elem ''monitoringStartupTimestamp'') py_int = Inr a)
        \<and> (\<exists>b. opt_key (find_desc root_elem ''statisticsPeriodSeconds'') py_int = Inr b)
        \<and> list_all2 (\<lambda>ev sd. parse_service_event float_of_str ev = Inr sd)
            (findall_desc_child root_elem ''servicesEvents'' ''serviceEvents'') svcs)"
    by (rule parse_health_services)
next
  show "(store_health_data None db svcs = Inr db') =
       (\<exists>rows. db' = db\<lparr> health_data := health_data db @ rows \<rparr>
          \<and> list_all2 (\<lambda>sd row. health_row_of sd = Inr row) svcs rows)"
    by (rule store_health_all2)
next
  show "parse_health_data_response example_float (Inr health_document)
      = (health_of_document, [])"
    by (rule parse_health_document)
next
  show "store_health_data None empty_db [stats_service, plain_service] = Inr health_db"
    by (rule store_health_document)
qed

theorem avg_duration_is_min_duration_witness:
  "parse_health_data_response example_float (Inr health_document) = (health_of_document, [])
   \<and> services health_of_document = Some [stats_service, plain_service]
   \<and> store_health_data None empty_db [stats_service, plain_service] = Inr health_db
   \<and> findall_desc_child health_document ''servicesEvents'' ''serviceEvents''
       = [service_event_stats, service_event_plain]
   \<and> health_data health_db = health_data empty_db @ [stats_row, plain_row]
   \<and> find_desc service_event_stats ''lastPeriodStatistics'' = Some stats_block
   \<and> find_desc stats_block ''requestMinDuration'' = Some (leaf ''requestMinDuration'' ''12.5'')
   \<and> py_float example_float (text_of (leaf ''requestMinDuration'' ''12.5''))
       = Inr (Finite (25 / 2))
   \<and> example_float ''40.0'' = Inr (Finite 40)
   \<and> avg_duration stats_row = sqlite_real (Finite (25 / 2))
   \<and> avg_duration stats_row = Some (Finite (25 / 2))
   \<and> find_desc service_event_plain ''lastPeriodStatistics'' = None
   \<and> avg_duration plain_row = Some (Finite 0)
   \<and> map avg_duration (health_data health_db) = [Some (Finite (25 / 2)), Some (Finite 0)]"
proof -
  note t = avg_duration_is_min_duration [where float_of_str = example_float
      and root_elem = health_document and health = health_of_document and lg = "[]"
      and svcs = "[stats_service, plain_service]" and db = empty_db and db' = health_db]
  note rows = t [THEN conjunct1, rule_format]
  have p: "parse_health_data_response example_float (Inr health_document)
      = (health_of_document, [])"
    by (rule parse_health_document)
  have s: "services health_of_document = Some [stats_service, plain_service]"
    by (simp add: health_of_document_def)
  have st: "store_health_data None empty_db [stats_service, plain_service] = Inr health_db"
    by (rule store_health_document)
  have hd: "health_data health_db = [stats_row, plain_row]" "health_data empty_db = []"
    by (simp_all add: health_db_def empty_db_def)
  from rows [OF p s st] have r: "list_all2 (\<lambda>ev row.
              (find_desc ev ''lastPeriodStatistics'' = None \<longrightarrow>
                 avg_duration row = Some (Finite 0))
              \<and> (\<forall>st. find_desc ev ''lastPeriodStatistics'' = Some st \<longrightarrow>
                   (find_desc st ''requestMinDuration'' = None \<longrightarrow>
                      avg_duration row = Some (Finite 0))
                   \<and> (\<forall>el. find_desc st ''requestMinDuration'' = Some el \<longrightarrow>
                        (\<exists>x. py_float example_float (text_of el) = Inr x
                           \<and> avg_duration row = sqlite_real x))))
            [service_event_stats, service_event_plain] [stats_row, plain_row]"
    by (simp add: hd find_health_document)
  have f: "py_float example_float (text_of (leaf ''requestMinDuration'' ''12.5''))
       = Inr (Finite (25 / 2))"
    by (simp add: py_float_def example_float_def)
  from r have a: "avg_duration stats_row = sqlite_real (Finite (25 / 2))"
    by (simp add: find_desc_service_event_stats find_desc_stats_block py_float_def
        example_float_def)
  from r have b: "avg_duration plain_row = Some (Finite 0)"
    by (simp add: find_desc_service_event_plain)
  from p s st a b f show ?thesis
    by (simp add: hd find_health_document find_desc_service_event_stats find_desc_stats_block
        find_desc_service_event_plain example_float_def sqlite_real_def)
qed

section \<open>The monitoring loop\<close>

lemma insert_all_error: "insert_all ds rows = Inl e \<Longrightarrow> e = OverflowError"
  by (induction ds arbitrary: rows) (auto split: if_splits)

lemma store_operational_error:
  "store_operational_data fault db ds = Inl e \<Longrightarrow> fault = Some e \<or> e = OverflowError"
  by (auto simp: store_operational_data_def split: option.splits sum.splits
      dest: insert_all_error)

lemma health_time_error: "health_time ts = Inl e \<Longrightarrow> e = OverflowError \<or> e = ValueError"
  by (auto simp: health_time_def py_truediv_def fromtimestamp_def Let_def
      split: option.splits sum.splits if_splits)

lemma health_row_error:
  "health_row_of s = Inl e \<Longrightarrow> e = OverflowError \<or> e = ValueError \<or> e = IntegrityError"
  by (auto simp: health_row_of_def Let_def split: sum.splits option.splits if_splits
      dest: health_time_error)

lemma insert_health_error:
  "insert_health ss rows = Inl e \<Longrightarrow> e = OverflowError \<or> e = ValueError \<or> e = IntegrityError"
  by (induction ss arbitrary: rows) (auto split: sum.splits dest: health_row_error)

lemma store_health_error:
  "store_health_data fault db ss = Inl e \<Longrightarrow>
     fault = Some e \<or> e = OverflowError \<or> e = ValueError \<or> e = IntegrityError"
  by (auto simp: store_health_data_def split: option.splits sum.splits
      dest: insert_health_error)

lemma get_operational_error:
  "get_operational_data cfg now response a b cf = Inl e \<Longrightarrow>
     e = IndexError \<or> e = ValueError
     \<or> (e = KeyboardInterrupt \<and> response = HttpRaises KeyboardInterrupt)"
  using build_operational_fails [of cfg now a b cf e]
  by (auto simp: get_operational_data_def is_Exception_def
      split: sum.splits http_outcome.splits if_splits)

lemma get_health_error:
  "get_health_data cfg float_of_str now response = Inl e \<Longrightarrow>
     e = IndexError \<or> (e = KeyboardInterrupt \<and> response = HttpRaises KeyboardInterrupt)"
  by (auto simp: get_health_data_def build_health_cases is_Exception_def
      split: sum.splits http_outcome.splits if_splits)

lemma pauses_append [simp]: "pauses (xs @ ys) = pauses xs @ pauses ys"
  by (simp add: pauses_def)

lemma cycles_started_append [simp]:
  "cycles_started (xs @ ys) = cycles_started xs + cycles_started ys"
  by (simp add: cycles_started_def)

lemma pauses_simps [simp]:
  "pauses [] = []" "pauses (Sleep n # tr) = n # pauses tr"
  "pauses (CollectingOperational # tr) = pauses tr" "pauses (CollectingHealth # tr) = pauses tr"
  "pauses (Stored k # tr) = pauses tr" "pauses (NothingCollected # tr) = pauses tr"
  "pauses (LoopError e # tr) = pauses tr" "pauses (Interrupted # tr) = pauses tr"
  by (simp_all add: pauses_def)

lemma cycles_started_simps [simp]:
  "cycles_started [] = 0" "cycles_started (Sleep n # tr) = cycles_started tr"
  "cycles_started (CollectingOperational # tr) = Suc (cycles_started tr)"
  "cycles_started (CollectingHealth # tr) = cycles_started tr"
  "cycles_started (Stored k # tr) = cycles_started tr"
  "cycles_started (NothingCollected # tr) = cycles_started tr"
  "cycles_started (LoopError e # tr) = cycles_started tr"
  "cycles_started (Interrupted # tr) = cycles_started tr"
  by (simp_all add: cycles_started_def)

lemma collect_operational_shape:
  assumes "collect_operational_data cfg env db hours = (res, evs)"
  shows "pauses evs = [] \<and> cycles_started evs = 1
       \<and> (res = Inl KeyboardInterrupt \<longrightarrow> interrupts env)"
  using assms
  by (auto simp: collect_operational_data_def Let_def interrupts_def
      split: sum.splits if_splits
      dest!: get_operational_error store_operational_error)

lemma collect_health_shape:
  assumes "collect_health_data cfg float_of_str env db = (res, evs)"
  shows "pauses evs = [] \<and> cycles_started evs = 0
       \<and> (res = Inl KeyboardInterrupt \<longrightarrow> interrupts env)"
  using assms
  by (auto simp: collect_health_data_def interrupts_def
      split: sum.splits option.splits
      dest!: get_health_error store_health_error)

lemma cycle_shape:
  assumes "cycle cfg float_of_str interval env db = (exc, db', evs)"
  shows "cycles_started evs = 1
       \<and> (exc = None \<longrightarrow> pauses evs = [interval * 60])
       \<and> (exc \<noteq> None \<longrightarrow> pauses evs = [])
       \<and> (exc = Some KeyboardInterrupt \<longrightarrow> interrupts env)"
proof -
  obtain r1 e1 where c1: "collect_operational_data cfg env db 2 = (r1, e1)"
    by (cases "collect_operational_data cfg env db 2") auto
  note s1 = collect_operational_shape [OF c1]
  show ?thesis
  proof (cases r1)
    case (Inl e)
    with assms c1 s1 show ?thesis by (auto simp: cycle_def)
  next
    case (Inr db1)
    obtain r2 e2 where c2: "collect_health_data cfg float_of_str env db1 = (r2, e2)"
      by (cases "collect_health_data cfg float_of_str env db1") auto
    note s2 = collect_health_shape [OF c2]
    show ?thesis
    proof (cases r2)
      case (Inl e)
      with assms c1 c2 s1 s2 Inr show ?thesis by (auto simp: cycle_def)
    next
      case (Inr db2)
      with assms c1 c2 s1 s2 \<open>r1 = Inr db1\<close> show ?thesis
        by (auto simp: cycle_def sleep_def interrupts_def split: if_splits)
    qed
  qed
qed

lemma loop_uninterrupted:
  assumes "\<forall>env \<in> set envs. \<not> interrupts env"
  shows "fst (start_monitoring_loop cfg float_of_str interval envs db tr) = Running
       \<and> length (pauses (snd (snd (start_monitoring_loop cfg float_of_str interval envs db tr))))
           = length (pauses tr) + length envs
       \<and> set (pauses (snd (snd (start_monitoring_loop cfg float_of_str interval envs db tr))))
           \<subseteq> set (pauses tr) \<union> {interval * 60, 60}
       \<and> cycles_started (snd (snd (start_monitoring_loop cfg float_of_str interval envs db tr)))
           = cycles_started tr + length envs"
  using assms
proof (induction envs arbitrary: db tr)
  case Nil
  then show ?case by auto
next
  case (Cons env envs)
  obtain exc db' evs where c: "cycle cfg float_of_str interval env db = (exc, db', evs)"
    by (cases "cycle cfg float_of_str interval env db") auto
  note s = cycle_shape [OF c]
  from Cons.prems have ni: "\<not> interrupts env" and rest: "\<forall>env \<in> set envs. \<not> interrupts env"
    by simp_all
  from ni have np: "\<not> pause_interrupted env" by (simp add: interrupts_def)
  show ?case
  proof (cases exc)
    case None
    with c s Cons.IH [OF rest, of db' "tr @ evs"] show ?thesis
      by auto
  next
    case (Some e)
    with s ni have e: "e \<noteq> KeyboardInterrupt" by auto
    with c s Some np Cons.IH [OF rest, of db' "tr @ evs @ [LoopError e, Sleep 60]"]
    show ?thesis
      by (auto simp: sleep_def)
  qed
qed

lemma loop_status:
  "fst (start_monitoring_loop cfg float_of_str interval envs db tr) = Running
   \<or> fst (start_monitoring_loop cfg float_of_str interval envs db tr) = Stopped
   \<or> fst (start_monitoring_loop cfg float_of_str interval envs db tr)
       = Propagated KeyboardInterrupt"
proof (induction envs arbitrary: db tr)
  case Nil
  then show ?case by simp
next
  case (Cons env envs)
  obtain exc db' evs where c: "cycle cfg float_of_str interval env db = (exc, db', evs)"
    by (cases "cycle cfg float_of_str interval env db") auto
  show ?case
  proof (cases exc)
    case None
    with c Cons.IH [of db' "tr @ evs"] show ?thesis by simp
  next
    case (Some e)
    with c Cons.IH [of db' "tr @ evs @ [LoopError e, Sleep 60]"] show ?thesis
      by (auto simp: sleep_def)
  qed
qed

lemma get_operational_data_ok:
  assumes "3 \<le> length (split_slash (cfg_client_id cfg))"
    and "- 62135510400000000 \<le> a" and "- 62135510400000000 \<le> b"
  shows "get_operational_data cfg now response a b None =
     (case response of
        HttpRaises e \<Rightarrow> if is_Exception e then Inr [] else Inl e
      | HttpResponse status body \<Rightarrow>
          if status = 200 then Inr (fst (parse_operational_data_response body)) else Inr [])"
proof -
  have "build_operational_data_request cfg now a b None \<noteq> Inl e" for e
    using build_operational_fails [of cfg now a b None e] assms by simp
  then obtain req where "build_operational_data_request cfg now a b None = Inr req"
    by (cases "build_operational_data_request cfg now a b None") auto
  then show ?thesis by (simp add: get_operational_data_def)
qed

lemma get_health_data_ok:
  assumes "3 \<le> length (split_slash (cfg_client_id cfg))"
  shows "get_health_data cfg float_of_str now response =
     (case response of
        HttpRaises e \<Rightarrow> if is_Exception e then Inr None else Inl e
      | HttpResponse status body \<Rightarrow>
          if status = 200 then Inr (Some (fst (parse_health_data_response float_of_str body)))
          else Inr None)"
  using assms by (simp add: get_health_data_def build_health_cases)

lemma example_cfg_segments: "3 \<le> length (split_slash (cfg_client_id example_cfg))"
  by (simp add: example_cfg_def)

lemma cycle_transport:
  "cycle example_cfg example_float 15 env_transport db =
     (None, db, [CollectingOperational, NothingCollected, CollectingHealth, NothingCollected,
                 Sleep 900])"
  by (simp add: cycle_def collect_operational_data_def collect_health_data_def
      get_operational_data_ok [OF example_cfg_segments]
      get_health_data_ok [OF example_cfg_segments]
      env_transport_def is_Exception_def sleep_def)

lemma cycle_parse:
  "cycle example_cfg example_float 15 env_parse db =
     (None, db, [CollectingOperational, NothingCollected, CollectingHealth, NothingCollected,
                 Sleep 900])"
  by (simp add: cycle_def collect_operational_data_def collect_health_data_def
      get_operational_data_ok [OF example_cfg_segments]
      get_health_data_ok [OF example_cfg_segments]
      env_parse_def parse_operational_data_response_def parse_health_data_response_def
      sleep_def)

lemma cycle_persistence:
  "cycle example_cfg example_float 15 env_persistence db =
     (Some OperationalError, db, [CollectingOperational])"
  by (simp add: cycle_def collect_operational_data_def
      get_operational_data_ok [OF example_cfg_segments]
      env_persistence_def parse_response_two store_operational_data_def)

lemma example_pauses:
  "\<not> pause_interrupted env_transport" "\<not> pause_interrupted env_parse"
  "\<not> pause_interrupted env_persistence"
  by (simp_all add: env_transport_def env_parse_def env_persistence_def)

lemma example_not_interrupted:
  "\<not> interrupts env_transport" "\<not> interrupts env_parse" "\<not> interrupts env_persistence"
  by (simp_all add: interrupts_def env_transport_def env_parse_def env_persistence_def)

lemma loop_persistence_failure:
  "start_monitoring_loop example_cfg example_float 15 [env_persistence] empty_db [] =
     (Running, empty_db, [CollectingOperational, LoopError OperationalError, Sleep 60])"
  by (simp add: cycle_persistence sleep_def example_pauses)

lemma loop_three_failures:
  "start_monitoring_loop example_cfg example_float 15
       [env_transport, env_parse, env_persistence] empty_db [] =
     (Running, empty_db,
      [CollectingOperational, NothingCollected, CollectingHealth, NothingCollected, Sleep 900,
       CollectingOperational, NothingCollected, CollectingHealth, NothingCollected, Sleep 900,
       CollectingOperational, LoopError OperationalError, Sleep 60])"
  by (simp add: cycle_transport cycle_parse cycle_persistence sleep_def example_pauses)

text \<open>
  C3.  Whatever the requests, the documents and the database do in the iterations, as
  long as no KeyboardInterrupt arrives the loop is still running after them: every
  iteration starts a collection cycle and ends in exactly one pause, of the configured
  interval after a cycle that came through and of 60 seconds after a cycle that raised.
  The loop leaves only through a KeyboardInterrupt (by \<open>break\<close>, or out of the pause
  of its error handler), so a loop that is no longer running has met one.  In the example
  a transport failure, a parse failure and a persistence failure in turn leave the loop
  running, with the pauses 900, 900 and 60.
\<close>

theorem loop_survives_failures:
  "((\<forall>env \<in> set envs. \<not> interrupts env) \<longrightarrow>
      fst (start_monitoring_loop cfg float_of_str interval envs db []) = Running
      \<and> length (pauses (snd (snd (start_monitoring_loop cfg float_of_str interval envs db []))))
          = length envs
      \<and> (\<forall>d \<in> set (pauses (snd (snd
              (start_monitoring_loop cfg float_of_str interval envs db [])))).
            d = interval * 60 \<or> d = 60)
      \<and> cycles_started (snd (snd (start_monitoring_loop cfg float_of_str interval envs db [])))
          = length envs)
   \<and> (fst (start_monitoring_loop cfg float_of_str interval envs db []) = Running
      \<or> fst (start_monitoring_loop cfg float_of_str interval envs db []) = Stopped
      \<or> fst (start_monitoring_loop cfg float_of_str interval envs db [])
          = Propagated KeyboardInterrupt)
   \<and> (fst (start_monitoring_loop cfg float_of_str interval envs db []) \<noteq> Running \<longrightarrow>
        (\<exists>env \<in> set envs. interrupts env))
   \<and> (\<forall>exc db' evs. cycle cfg float_of_str interval env db = (exc, db', evs) \<longrightarrow>
        \<not> interrupts env \<longrightarrow>
        start_monitoring_loop cfg float_of_str interval [env] db [] =
          (case exc of
             None \<Rightarrow> (Running, db', evs)
           | Some e \<Rightarrow> (Running, db', evs @ [LoopError e, Sleep 60]))
        \<and> (exc = None \<longrightarrow> pauses evs = [interval * 60])
        \<and> (exc \<noteq> None \<longrightarrow> pauses evs = []))"
proof -
  let ?L = "start_monitoring_loop cfg float_of_str interval envs db []"
  have a: "(\<forall>env \<in> set envs. \<not> interrupts env) \<longrightarrow>
      fst ?L = Running \<and> length (pauses (snd (snd ?L))) = length envs
      \<and> (\<forall>d \<in> set (pauses (snd (snd ?L))). d = interval * 60 \<or> d = 60)
      \<and> cycles_started (snd (snd ?L)) = length envs"
    using loop_uninterrupted [of envs cfg float_of_str interval db "[]"] by auto
  have b: "fst ?L = Running \<or> fst ?L = Stopped \<or> fst ?L = Propagated KeyboardInterrupt"
    by (rule loop_status)
  have c: "fst ?L \<noteq> Running \<longrightarrow> (\<exists>env \<in> set envs. interrupts env)"
    using a by blast
  have d: "\<forall>exc db' evs. cycle cfg float_of_str interval env db = (exc, db', evs) \<longrightarrow>
        \<not> interrupts env \<longrightarrow>
        start_monitoring_loop cfg float_of_str interval [env] db [] =
          (case exc of
             None \<Rightarrow> (Running, db', evs)
           | Some e \<Rightarrow> (Running, db', evs @ [LoopError e, Sleep 60]))
        \<and> (exc = None \<longrightarrow> pauses evs = [interval * 60])
        \<and> (exc \<noteq> None \<longrightarrow> pauses evs = [])"
  proof (intro allI impI)
    fix exc db' evs
    assume cy: "cycle cfg float_of_str interval env db = (exc, db', evs)"
      and ni: "\<not> interrupts env"
    note s = cycle_shape [OF cy]
    from ni have np: "\<not> pause_interrupted env" by (simp add: interrupts_def)
    from s ni have "exc \<noteq> Some KeyboardInterrupt" by auto
    with cy np s show "start_monitoring_loop cfg float_of_str interval [env] db [] =
          (case exc of
             None \<Rightarrow> (Running, db', evs)
           | Some e \<Rightarrow> (Running, db', evs @ [LoopError e, Sleep 60]))
        \<and> (exc = None \<longrightarrow> pauses evs = [interval * 60])
        \<and> (exc \<noteq> None \<longrightarrow> pauses evs = [])"
      by (auto simp: sleep_def split: option.splits)
  qed
  from a b c d show ?thesis by blast
qed

theorem loop_survives_failures_witness:
  "\<not> interrupts env_transport \<and> \<not> interrupts env_parse \<and> \<not> interrupts env_persistence
   \<and> start_monitoring_loop example_cfg example_float 15
         [env_transport, env_parse, env_persistence] empty_db [] =
       (Running, empty_db,
        [CollectingOperational, NothingCollected, CollectingHealth, NothingCollected,
         Sleep 900,
         CollectingOperational, NothingCollected, CollectingHealth, NothingCollected,
         Sleep 900,
         CollectingOperational, LoopError OperationalError, Sleep 60])
   \<and> cycle example_cfg example_float 15 env_persistence empty_db
       = (Some OperationalError, empty_db, [CollectingOperational])
   \<and> start_monitoring_loop example_cfg example_float 15 [env_persistence] empty_db []
       = (Running, empty_db, [CollectingOperational, LoopError OperationalError, Sleep 60])
   \<and> length (pauses (snd (snd (start_monitoring_loop example_cfg example_float 15
         [env_transport, env_parse, env_persistence] empty_db [])))) = 3
   \<and> cycles_started (snd (snd (start_monitoring_loop example_cfg example_float 15
         [env_transport, env_parse, env_persistence] empty_db []))) = 3"
  using loop_survives_failures [of "[env_transport, env_parse, env_persistence]"
      example_cfg example_float 15 empty_db env_persistence]
  by (simp add: loop_three_failures loop_persistence_failure cycle_persistence
      example_not_interrupted del: start_monitoring_loop.simps)

end
